theory Spec2Isabelle
  imports Main "HOL-Library.Char_ord" "HOL-Library.List_Lexorder"
begin

section \<open>Python strings\<close>

text \<open>
  Module names and file names are Python \<open>str\<close> values, modelled as \<^typ>\<open>string\<close>.
  The operations below are the \<open>str\<close> methods the program calls, restricted to the
  separators it uses (a single character).
\<close>

definition startswith :: "string \<Rightarrow> string \<Rightarrow> bool" where
  \<comment> \<open>\<open>s.startswith(p)\<close>\<close>
  "startswith s p = (take (length p) s = p)"

fun str_replace1 :: "string \<Rightarrow> string \<Rightarrow> string \<Rightarrow> string" where
  \<comment> \<open>\<open>s.replace(old, new, 1)\<close>: the leftmost occurrence of \<open>old\<close> is replaced\<close>
  "str_replace1 [] old new = (if old = [] then new else [])"
| "str_replace1 (c # cs) old new =
     (if startswith (c # cs) old then new @ drop (length old) (c # cs)
      else c # str_replace1 cs old new)"

definition rpartition :: "char \<Rightarrow> string \<Rightarrow> string \<times> string \<times> string" where
  \<comment> \<open>\<open>s.rpartition(sep)\<close>: split at the last occurrence of \<open>sep\<close>\<close>
  "rpartition sep s =
     (if sep \<in> set s
      then (rev (tl (dropWhile (\<lambda>c. c \<noteq> sep) (rev s))), [sep],
            rev (takeWhile (\<lambda>c. c \<noteq> sep) (rev s)))
      else ([], [], s))"

fun split_on :: "char \<Rightarrow> string \<Rightarrow> string list" where
  \<comment> \<open>\<open>s.split(sep)\<close>\<close>
  "split_on sep [] = [[]]"
| "split_on sep (c # cs) =
     (if c = sep then [] # split_on sep cs
      else (case split_on sep cs of
              w # ws \<Rightarrow> (c # w) # ws
            | [] \<Rightarrow> [[c]]))"

fun join_with :: "string \<Rightarrow> string list \<Rightarrow> string" where
  \<comment> \<open>\<open>sep.join(xs)\<close>\<close>
  "join_with sep [] = []"
| "join_with sep [x] = x"
| "join_with sep (x # y # ys) = x @ sep @ join_with sep (y # ys)"

definition count_char :: "char \<Rightarrow> string \<Rightarrow> nat" where
  \<comment> \<open>\<open>s.count(sep)\<close>\<close>
  "count_char sep s = length (filter (\<lambda>c. c = sep) s)"

section \<open>Data model\<close>

text \<open>
  A code object, as far as the program looks at it: its file name, its constants
  (nested code objects among them), and what \<open>dis._find_store_names\<close> and
  \<open>dis._find_imports\<close> yield for it (names stored at top level; import directives as
  triples of target name, level and fromlist).
\<close>

datatype code =
  Code (co_filename: string) (co_consts: "const list")
       (co_store_names: "string list")
       (co_imports: "(string \<times> int \<times> string list option) list")
and const = ConstCode code | ConstOther

text \<open>
  An attribute of an object is set to a value or not set at all; reading an attribute
  that is not set raises \<open>AttributeError\<close>.
\<close>

datatype 'a attribute = Unset | Value 'a

text \<open>
  A module object in \<open>modules\<close>. \<open>is_mf_module\<close> tells whether it is an instance of
  \<open>MFModuleType\<close>: the import system creates one through \<open>_MFLoader.create_module\<close>
  for a spec that has a loader, and a plain \<open>types.ModuleType\<close> for a spec without
  one (a namespace package), which \<open>_inject_mf_into_spec\<close> leaves as it is. The class
  \<open>MFModuleType\<close> only annotates \<open>__code__\<close>, \<open>__mf_global_names__\<close> and
  \<open>__mf_star_imports__\<close>: an object has them once \<open>exec_module\<close> has assigned them.
  \<open>attrs\<close> is the set of names for which \<open>hasattr\<close> holds on the object;
  \<open>dunder_package\<close> and \<open>spec_parent\<close> are what \<open>_calc___package__\<close> reads from the
  module's globals (\<open>__package__\<close> and \<open>__spec__.parent\<close>, \<open>None\<close> when not there).
\<close>

record mf_module =
  dunder_name :: string
  dunder_package :: "string option"
  spec_parent :: "string option"
  attrs :: "string set"
  is_mf_module :: bool
  dunder_code :: "code option attribute"
  mf_global_names :: "string set attribute"
  mf_star_imports :: "string set attribute"

type_synonym addr = nat

text \<open>The exceptions that occur; a raise is a value of the function that raises.\<close>

datatype py_exc =
  ImportError | SyntaxError | AttributeError | AssertionError | KeyError
  | FileNotFoundError | EOFError | OtherError

text \<open>
  \<open>ModuleFinder\<close>. \<open>modules\<close> maps a name to a module object; the objects live in
  \<open>objs\<close>, since the scanner mutates the module it scans while the same object is
  reachable through \<open>modules\<close>. \<open>bad_modules\<close> is a \<open>dict\<close> in insertion order, from a
  failed name to the set of names of its importers.
\<close>

record module_finder =
  path :: "string list"
  path_replacements :: "(string \<times> string) list"
  excludes :: "string list"
  modules :: "string \<rightharpoonup> addr"
  bad_modules :: "(string \<times> string set) list"
  objs :: "addr \<Rightarrow> mf_module"

definition new_finder ::
  "string list \<Rightarrow> (string \<times> string) list \<Rightarrow> string list \<Rightarrow> (addr \<Rightarrow> mf_module) \<Rightarrow> module_finder" where
  \<comment> \<open>\<open>ModuleFinder.__init__\<close>; the last argument is the object store the session starts with\<close>
  "new_finder p repl excl heap =
     \<lparr>path = p, path_replacements = repl, excludes = excl,
      modules = Map.empty, bad_modules = [], objs = heap\<rparr>"

fun setdefault_add :: "(string \<times> string set) list \<Rightarrow> string \<Rightarrow> string \<Rightarrow> (string \<times> string set) list" where
  \<comment> \<open>\<open>d.setdefault(key, set()).add(x)\<close>\<close>
  "setdefault_add [] key x = [(key, {x})]"
| "setdefault_add ((k, v) # d) key x =
     (if k = key then (k, insert x v) # d else (k, v) # setdefault_add d key x)"

section \<open>Classifying the failures: \<open>any_missing_maybe\<close>\<close>

text \<open>
  The loop \<open>for name in self.bad_modules\<close> with its two accumulators. The loop runs over
  the entries of the dict: \<open>importers\<close> is \<open>self.bad_modules[name]\<close>, the value stored
  under the key the loop is at.
\<close>

fun classify_loop ::
  "module_finder \<Rightarrow> (string \<times> string set) list \<Rightarrow> string list \<Rightarrow> string list
     \<Rightarrow> py_exc + string list \<times> string list" where
  "classify_loop mf [] missing maybe = Inr (missing, maybe)"
| "classify_loop mf ((name, importers) # rest) missing maybe =
     (if name \<in> set (excludes mf) then classify_loop mf rest missing maybe
      else if CHR ''.'' \<notin> set name then classify_loop mf rest (missing @ [name]) maybe
      else
        (case rpartition CHR ''.'' name of (pkgname, _, subname) \<Rightarrow>
          (case modules mf pkgname of
             Some a \<Rightarrow>
               (let pkg = objs mf a in
                if pkgname \<in> importers then classify_loop mf rest (missing @ [name]) maybe
                else
                  (case mf_global_names pkg of
                     Unset \<Rightarrow> Inl AttributeError
                   | Value global_names \<Rightarrow>
                       if subname \<in> global_names then classify_loop mf rest missing maybe
                       else
                         (case mf_star_imports pkg of
                            Unset \<Rightarrow> Inl AttributeError
                          | Value star_imports \<Rightarrow>
                              if star_imports \<noteq> {}
                              then classify_loop mf rest missing (maybe @ [name])
                              else classify_loop mf rest (missing @ [name]) maybe)))
           | None \<Rightarrow> classify_loop mf rest (missing @ [name]) maybe)))"

definition any_missing_maybe ::
  "module_finder \<Rightarrow> (py_exc + string list \<times> string list) \<times> module_finder" where
  \<comment> \<open>the lists the call returns or the exception it raises, and the finder after it\<close>
  "any_missing_maybe mf =
     (case classify_loop mf (bad_modules mf) [] [] of
        Inl exc \<Rightarrow> (Inl exc, mf)
      | Inr (missing, maybe) \<Rightarrow> (Inr (sort missing, sort maybe), mf))"

section \<open>Rewriting file names: \<open>_replace_paths_in_code\<close>\<close>

fun rewrite_filename :: "(string \<times> string) list \<Rightarrow> string \<Rightarrow> string" where
  \<comment> \<open>the \<open>for ... break ... else\<close> loop over \<open>path_replacements\<close>\<close>
  "rewrite_filename [] original_filename = original_filename"
| "rewrite_filename ((old_path, new_path) # rest) original_filename =
     (if startswith original_filename old_path
      then str_replace1 original_filename old_path new_path
      else rewrite_filename rest original_filename)"

text \<open>
  \<open>os.path.normpath\<close> belongs to the host platform and is a parameter. The nested code
  objects among the constants are rewritten with the same list of replacements.
\<close>

fun replace_paths_in_code :: "(string \<Rightarrow> string) \<Rightarrow> code \<Rightarrow> (string \<times> string) list \<Rightarrow> code"
  and replace_paths_in_const :: "(string \<Rightarrow> string) \<Rightarrow> const \<Rightarrow> (string \<times> string) list \<Rightarrow> const" where
  "replace_paths_in_code normpath (Code filename consts stores imports) replacements =
     Code (rewrite_filename replacements (normpath filename))
          (map (\<lambda>k. replace_paths_in_const normpath k replacements) consts)
          stores imports"
| "replace_paths_in_const normpath (ConstCode c) replacements =
     ConstCode (replace_paths_in_code normpath c replacements)"
| "replace_paths_in_const normpath ConstOther replacements = ConstOther"

text \<open>\<open>posixpath.normpath\<close>, the implementation of \<open>os.path.normpath\<close> on POSIX hosts.\<close>

fun normpath_comps :: "nat \<Rightarrow> string list \<Rightarrow> string list \<Rightarrow> string list" where
  "normpath_comps initial_slashes [] new_comps = new_comps"
| "normpath_comps initial_slashes (part # parts) new_comps =
     (if part = [] \<or> part = ''.'' then normpath_comps initial_slashes parts new_comps
      else if part \<noteq> ''..'' \<or> (initial_slashes = 0 \<and> new_comps = [])
                \<or> (new_comps \<noteq> [] \<and> last new_comps = ''..'')
      then normpath_comps initial_slashes parts (new_comps @ [part])
      else if new_comps \<noteq> [] then normpath_comps initial_slashes parts (butlast new_comps)
      else normpath_comps initial_slashes parts new_comps)"

definition posix_normpath :: "string \<Rightarrow> string" where
  "posix_normpath p =
     (if p = [] then ''.''
      else
        (let initial_slashes =
               (if startswith p ''/''
                then (if startswith p ''//'' \<and> \<not> startswith p ''///'' then 2 else 1)
                else (0::nat));
             comps = normpath_comps initial_slashes (split_on CHR ''/'' p) [];
             joined = replicate initial_slashes CHR ''/'' @ join_with ''/'' comps
         in if joined = [] then ''.'' else joined))"

section \<open>Resolving relative names\<close>

text \<open>
  \<open>_scan_code\<close> resolves a relative directive with two functions of \<open>importlib\<close>:
  \<open>_calc___package__\<close> on the globals of the importing module, and
  \<open>importlib.util.resolve_name\<close> (with \<open>_bootstrap._resolve_name\<close>).
\<close>

fun rsplit_on :: "char \<Rightarrow> nat \<Rightarrow> string \<Rightarrow> string list" where
  \<comment> \<open>\<open>s.rsplit(sep, maxsplit)\<close>\<close>
  "rsplit_on sep 0 s = [s]"
| "rsplit_on sep (Suc n) s =
     (if sep \<in> set s
      then (case rpartition sep s of (h, _, t) \<Rightarrow> rsplit_on sep n h @ [t])
      else [s])"


definition calc_package :: "mf_module \<Rightarrow> string" where
  \<comment> \<open>\<open>_calc___package__(module.__dict__)\<close>\<close>
  "calc_package m =
     (case dunder_package m of
        Some package \<Rightarrow> package
      | None \<Rightarrow>
          (case spec_parent m of
             Some parent \<Rightarrow> parent
           | None \<Rightarrow>
               (if ''__path__'' \<in> attrs m then dunder_name m
                else fst (rpartition CHR ''.'' (dunder_name m)))))"

definition bootstrap_resolve_name :: "string \<Rightarrow> string \<Rightarrow> nat \<Rightarrow> py_exc + string" where
  \<comment> \<open>\<open>importlib._bootstrap._resolve_name(name, package, level)\<close>\<close>
  "bootstrap_resolve_name name package level =
     (let bits = rsplit_on CHR ''.'' (level - 1) package in
      if length bits < level then Inl ImportError
      else (let base = hd bits in Inr (if name \<noteq> [] then base @ ''.'' @ name else base)))"

definition resolve_name :: "string \<Rightarrow> string \<Rightarrow> py_exc + string" where
  \<comment> \<open>\<open>importlib.util.resolve_name(name, package)\<close>\<close>
  "resolve_name name package =
     (if \<not> startswith name ''.'' then Inr name
      else if package = [] then Inl ImportError
      else
        (let level = length (takeWhile (\<lambda>c. c = CHR ''.'') name)
         in bootstrap_resolve_name (drop level name) package level))"

section \<open>Scanning a module: \<open>_scan_code\<close>\<close>

text \<open>
  What the program takes from outside: \<open>importlib.__import__\<close>, which runs the host's
  import machinery against the finder (it may register modules, scan them in turn and
  record their failures, so it returns the finder it leaves behind, with the module it
  returns or the exception it raises); \<open>os.path.normpath\<close>; the loader's \<open>get_code\<close>;
  \<open>importlib.util.spec_from_file_location\<close>; and the place where the interpreter puts
  the next object.
\<close>

record module_spec =
  spec_name :: string
  spec_has_loader :: bool

record env =
  import_module ::
    "string \<Rightarrow> addr \<Rightarrow> string list \<Rightarrow> int \<Rightarrow> module_finder \<Rightarrow> (py_exc + addr) \<times> module_finder"
  normpath :: "string \<Rightarrow> string"
  get_code :: "string \<Rightarrow> py_exc + code option"
  spec_from_file_location :: "string \<Rightarrow> string \<Rightarrow> module_spec option"
  fresh_addr :: "module_finder \<Rightarrow> addr"

definition update_module :: "addr \<Rightarrow> (mf_module \<Rightarrow> mf_module) \<Rightarrow> module_finder \<Rightarrow> module_finder" where
  \<comment> \<open>mutation of the module object at an address\<close>
  "update_module a f mf = mf\<lparr>objs := (objs mf)(a := f (objs mf a))\<rparr>"

definition note_bad :: "string \<Rightarrow> string \<Rightarrow> module_finder \<Rightarrow> module_finder" where
  \<comment> \<open>\<open>mf.bad_modules.setdefault(key, set()).add(importer)\<close>\<close>
  "note_bad key importer mf = mf\<lparr>bad_modules := setdefault_add (bad_modules mf) key importer\<rparr>"

datatype opcode_info = OpStore string | OpImport string "string list option" int

definition scan_opcodes :: "code \<Rightarrow> opcode_info list" where
  "scan_opcodes c =
     map OpStore (co_store_names c)
     @ map (\<lambda>(name, level, fromlist). OpImport name fromlist level) (co_imports c)"

text \<open>
  The \<open>try\<close> block of an import directive: the outcome, the value the variable \<open>name\<close>
  has when the block is left, and the finder.
\<close>

definition try_import ::
  "env \<Rightarrow> addr \<Rightarrow> string \<Rightarrow> string list \<Rightarrow> int \<Rightarrow> module_finder
     \<Rightarrow> (py_exc + addr) \<times> string \<times> module_finder" where
  "try_import e module name fromlist level mf =
     (if level > 0 then
        (case resolve_name (replicate (nat level) CHR ''.'' @ name) (calc_package (objs mf module)) of
           Inl exc \<Rightarrow> (Inl exc, name, mf)
         | Inr absolute \<Rightarrow>
             (case import_module e absolute module fromlist 0 mf of
                (r, mf') \<Rightarrow> (r, absolute, mf')))
      else
        (case import_module e name module fromlist level mf of
           (r, mf') \<Rightarrow> (r, name, mf')))"

fun check_fromlist :: "string \<Rightarrow> addr \<Rightarrow> addr \<Rightarrow> string list \<Rightarrow> module_finder \<Rightarrow> module_finder" where
  \<comment> \<open>\<open>for from_item in fromlist: if not hasattr(result_module, from_item): ...\<close>\<close>
  "check_fromlist name result_module module [] mf = mf"
| "check_fromlist name result_module module (from_item # rest) mf =
     check_fromlist name result_module module rest
       (if from_item \<notin> attrs (objs mf result_module)
        then note_bad (name @ ''.'' @ from_item) (dunder_name (objs mf module)) mf
        else mf)"

definition add_global_names :: "addr \<Rightarrow> string set \<Rightarrow> module_finder \<Rightarrow> py_exc option \<times> module_finder" where
  \<comment> \<open>\<open>module.__mf_global_names__ |= names\<close>, and \<open>.add(name)\<close> for one name\<close>
  "add_global_names module names mf =
     (case mf_global_names (objs mf module) of
        Unset \<Rightarrow> (Some AttributeError, mf)
      | Value global_names \<Rightarrow>
          (None, update_module module (\<lambda>m. m\<lparr>mf_global_names := Value (global_names \<union> names)\<rparr>) mf))"

definition add_star_imports :: "addr \<Rightarrow> string set \<Rightarrow> module_finder \<Rightarrow> py_exc option \<times> module_finder" where
  \<comment> \<open>\<open>module.__mf_star_imports__ |= names\<close>, and \<open>.add(name)\<close> for one name\<close>
  "add_star_imports module names mf =
     (case mf_star_imports (objs mf module) of
        Unset \<Rightarrow> (Some AttributeError, mf)
      | Value star_imports \<Rightarrow>
          (None, update_module module (\<lambda>m. m\<lparr>mf_star_imports := Value (star_imports \<union> names)\<rparr>) mf))"

definition star_import :: "addr \<Rightarrow> string \<Rightarrow> module_finder \<Rightarrow> py_exc option \<times> module_finder" where
  \<comment> \<open>the \<open>if have_star\<close> block, with assertions enabled; \<open>sys.modules\<close> is the finder's
      \<open>modules\<close> while it runs. In \<open>x.a |= y.a\<close> the left attribute is read first.\<close>
  "star_import module name mf =
     (case modules mf name of
        Some cached_mod \<Rightarrow>
          if \<not> is_mf_module (objs mf cached_mod) then (Some AssertionError, mf)
          else
            (case mf_global_names (objs mf module) of
               Unset \<Rightarrow> (Some AttributeError, mf)
             | Value own_names \<Rightarrow>
                 (case mf_global_names (objs mf cached_mod) of
                    Unset \<Rightarrow> (Some AttributeError, mf)
                  | Value cached_names \<Rightarrow>
                      (case add_global_names module cached_names mf of
                         (Some exc, mf1) \<Rightarrow> (Some exc, mf1)
                       | (None, mf1) \<Rightarrow>
                           (case mf_star_imports (objs mf1 module) of
                              Unset \<Rightarrow> (Some AttributeError, mf1)
                            | Value own_stars \<Rightarrow>
                                (case mf_star_imports (objs mf1 cached_mod) of
                                   Unset \<Rightarrow> (Some AttributeError, mf1)
                                 | Value cached_stars \<Rightarrow>
                                     (case add_star_imports module cached_stars mf1 of
                                        (Some exc, mf2) \<Rightarrow> (Some exc, mf2)
                                      | (None, mf2) \<Rightarrow>
                                          (case dunder_code (objs mf2 cached_mod) of
                                             Unset \<Rightarrow> (Some AttributeError, mf2)
                                           | Value None \<Rightarrow> add_star_imports module {name} mf2
                                           | Value (Some c) \<Rightarrow> (None, mf2))))))))
      | None \<Rightarrow> add_star_imports module {name} mf)"

definition have_star_of :: "string list option \<Rightarrow> bool" where
  \<comment> \<open>\<open>have_star\<close>: \<open>"*" in fromlist\<close>, and \<open>False\<close> for no fromlist\<close>
  "have_star_of fromlist0 = (case fromlist0 of Some fl \<Rightarrow> ''*'' \<in> set fl | None \<Rightarrow> False)"

definition explicit_names :: "string list option \<Rightarrow> string list" where
  \<comment> \<open>\<open>[f for f in fromlist if f != "*"]\<close>, and \<open>[]\<close> for no fromlist\<close>
  "explicit_names fromlist0 =
     (case fromlist0 of Some fl \<Rightarrow> filter (\<lambda>f. f \<noteq> ''*'') fl | None \<Rightarrow> [])"

definition scan_import ::
  "env \<Rightarrow> addr \<Rightarrow> string \<Rightarrow> string list option \<Rightarrow> int \<Rightarrow> module_finder
     \<Rightarrow> py_exc option \<times> module_finder" where
  "scan_import e module name0 fromlist0 level mf =
     (let have_star = have_star_of fromlist0;
          fromlist = explicit_names fromlist0
      in case try_import e module name0 fromlist level mf of
           (Inl exc, name, mf1) \<Rightarrow>
             (if exc = ImportError \<or> exc = SyntaxError
              then (let mf2 = note_bad name (dunder_name (objs mf1 module)) mf1
                    in if have_star then star_import module name mf2 else (None, mf2))
              else (Some exc, mf1))
         | (Inr result_module, name, mf1) \<Rightarrow>
             (let mf2 = (if ''__path__'' \<in> attrs (objs mf1 result_module)
                         then check_fromlist name result_module module fromlist mf1
                         else mf1)
              in if have_star then star_import module name mf2 else (None, mf2)))"

fun scan_opcode :: "env \<Rightarrow> addr \<Rightarrow> opcode_info \<Rightarrow> module_finder \<Rightarrow> py_exc option \<times> module_finder" where
  "scan_opcode e module (OpStore name) mf = add_global_names module {name} mf"
| "scan_opcode e module (OpImport name fromlist level) mf =
     scan_import e module name fromlist level mf"

fun scan_loop :: "env \<Rightarrow> addr \<Rightarrow> opcode_info list \<Rightarrow> module_finder \<Rightarrow> py_exc option \<times> module_finder" where
  \<comment> \<open>\<open>for opcode_info in _scan_opcodes(code)\<close>; an exception ends the loop\<close>
  "scan_loop e module [] mf = (None, mf)"
| "scan_loop e module (opc # rest) mf =
     (case scan_opcode e module opc mf of
        (Some exc, mf') \<Rightarrow> (Some exc, mf')
      | (None, mf') \<Rightarrow> scan_loop e module rest mf')"

fun scan_code :: "env \<Rightarrow> addr \<Rightarrow> code \<Rightarrow> module_finder \<Rightarrow> py_exc option \<times> module_finder"
  and scan_consts :: "env \<Rightarrow> addr \<Rightarrow> const list \<Rightarrow> module_finder \<Rightarrow> py_exc option \<times> module_finder" where
  "scan_code e module (Code filename consts stores imports) mf =
     (case scan_loop e module (scan_opcodes (Code filename consts stores imports)) mf of
        (Some exc, mf') \<Rightarrow> (Some exc, mf')
      | (None, mf') \<Rightarrow> scan_consts e module consts mf')"
| "scan_consts e module [] mf = (None, mf)"
| "scan_consts e module (ConstOther # rest) mf = scan_consts e module rest mf"
| "scan_consts e module (ConstCode c # rest) mf =
     (case scan_code e module c mf of
        (Some exc, mf') \<Rightarrow> (Some exc, mf')
      | (None, mf') \<Rightarrow> scan_consts e module rest mf')"

section \<open>Loading: \<open>_MFLoader\<close> and \<open>_import_from_file\<close>\<close>

definition exec_module :: "env \<Rightarrow> addr \<Rightarrow> module_finder \<Rightarrow> py_exc option \<times> module_finder" where
  \<comment> \<open>\<open>_MFLoader.exec_module\<close>\<close>
  "exec_module e module mf0 =
     (if \<not> is_mf_module (objs mf0 module) then (Some AssertionError, mf0)
      else
        (let mf = update_module module
                    (\<lambda>m. m\<lparr>dunder_code := Value None, mf_global_names := Value {},
                            mf_star_imports := Value {}\<rparr>) mf0
         in case get_code e (dunder_name (objs mf module)) of
              Inl exc \<Rightarrow> (Some exc, mf)
            | Inr None \<Rightarrow> (None, mf)
            | Inr (Some c) \<Rightarrow>
                (let c' = (if path_replacements mf \<noteq> []
                           then replace_paths_in_code (normpath e) c (path_replacements mf)
                           else c);
                     mf' = update_module module (\<lambda>m. m\<lparr>dunder_code := Value (Some c')\<rparr>) mf
                 in scan_code e module c' mf')))"

text \<open>
  A module as \<open>_MFLoader.create_module\<close> returns it: \<open>MFModuleType(spec.name)\<close>, an
  instance with none of the three attributes until \<open>exec_module\<close> assigns them.
\<close>

record fresh_module =
  fresh_name :: string
  fresh_code :: "code option attribute"

definition create_module :: "module_spec \<Rightarrow> fresh_module" where
  "create_module spec = \<lparr>fresh_name = spec_name spec, fresh_code = Unset\<rparr>"

definition import_from_file ::
  "env \<Rightarrow> string \<Rightarrow> string \<Rightarrow> module_finder \<Rightarrow> py_exc option \<times> module_finder" where
  \<comment> \<open>\<open>ModuleFinder._import_from_file\<close>, with assertions enabled\<close>
  "import_from_file e name pathname mf =
     (case spec_from_file_location e name pathname of
        None \<Rightarrow> (Some FileNotFoundError, mf)
      | Some spec \<Rightarrow>
          (if \<not> spec_has_loader spec then (Some AssertionError, mf)
           else
             (let module = create_module spec in
              case fresh_code module of
                Unset \<Rightarrow> (Some AttributeError, mf)
              | Value None \<Rightarrow> (Some AssertionError, mf)
              | Value (Some c) \<Rightarrow>
                  (let a = fresh_addr e mf;
                       mf1 = mf\<lparr>objs := (objs mf)
                               (a := \<lparr>dunder_name = fresh_name module, dunder_package = None,
                                      spec_parent = None, attrs = {}, is_mf_module = True,
                                      dunder_code = Value (Some c),
                                      mf_global_names = Unset, mf_star_imports = Unset\<rparr>),
                             modules := (modules mf)(name \<mapsto> a)\<rparr>
                   in exec_module e a mf1))))"

definition run_as_script :: "env \<Rightarrow> string \<Rightarrow> module_finder \<Rightarrow> py_exc option \<times> module_finder" where
  "run_as_script e pathname mf = import_from_file e ''__main__'' pathname mf"

subsection \<open>The classification rule in the words of the specification\<close>

definition dotted_parent :: "string \<Rightarrow> string" where
  \<comment> \<open>a dotted name minus its last component\<close>
  "dotted_parent n = join_with ''.'' (butlast (split_on CHR ''.'' n))"

definition dotted_tail :: "string \<Rightarrow> string" where
  \<comment> \<open>the last component of a dotted name\<close>
  "dotted_tail n = last (split_on CHR ''.'' n)"

definition importers_of :: "(string \<times> string set) list \<Rightarrow> string \<Rightarrow> string set" where
  \<comment> \<open>the importers recorded under a key; none for a name that is not a key\<close>
  "importers_of d key = (case map_of d key of Some v \<Rightarrow> v | None \<Rightarrow> {})"

definition bound_names :: "mf_module \<Rightarrow> string set" where
  \<comment> \<open>the names a module binds; none are known of a module that was not analysed\<close>
  "bound_names m = (case mf_global_names m of Value global_names \<Rightarrow> global_names | Unset \<Rightarrow> {})"

definition wildcard_sources :: "mf_module \<Rightarrow> string set" where
  \<comment> \<open>the unresolved wildcard sources of a module\<close>
  "wildcard_sources m = (case mf_star_imports m of Value star_imports \<Rightarrow> star_imports | Unset \<Rightarrow> {})"

datatype placement = DefinitelyMissing | MaybeMissing | NotMissing

definition spec_classify :: "module_finder \<Rightarrow> string \<Rightarrow> string set \<Rightarrow> placement" where
  "spec_classify mf n importers =
     (if CHR ''.'' \<notin> set n then DefinitelyMissing
      else
        (let p = dotted_parent n in
         case modules mf p of
           None \<Rightarrow> DefinitelyMissing
         | Some a \<Rightarrow>
             if p \<in> importers then DefinitelyMissing
             else if dotted_tail n \<in> bound_names (objs mf a) then NotMissing
             else if wildcard_sources (objs mf a) \<noteq> {} then MaybeMissing
             else DefinitelyMissing))"

definition entry_readable :: "module_finder \<Rightarrow> string \<Rightarrow> string set \<Rightarrow> bool" where
  \<comment> \<open>the loop reads no attribute that is not set when it is at this entry\<close>
  "entry_readable mf n importers =
     (if n \<in> set (excludes mf) then True
      else if CHR ''.'' \<notin> set n then True
      else
        (case modules mf (dotted_parent n) of
           None \<Rightarrow> True
         | Some a \<Rightarrow>
             if dotted_parent n \<in> importers then True
             else
               (case mf_global_names (objs mf a) of
                  Unset \<Rightarrow> False
                | Value global_names \<Rightarrow>
                    if dotted_tail n \<in> global_names then True
                    else mf_star_imports (objs mf a) \<noteq> Unset)))"

definition placed :: "module_finder \<Rightarrow> placement \<Rightarrow> (string \<times> string set) list \<Rightarrow> string list" where
  \<comment> \<open>the keys, in order, that are not excluded and that the rule places at \<open>v\<close>\<close>
  "placed mf v es =
     map fst (filter (\<lambda>(n, i). n \<notin> set (excludes mf) \<and> spec_classify mf n i = v) es)"

section \<open>The older variant: \<open>determine_parent\<close>\<close>

text \<open>
  \<open>src/misc/_modulefinder_typed.py\<close> finds the package a relative import is anchored
  at by itself. Its \<open>Module\<close> has a name and a \<open>__path__\<close> (a list for a package,
  \<open>None\<close> for a plain module); \<open>self.modules[pname]\<close> raises \<open>KeyError\<close> for a name
  that is not registered.
\<close>

record legacy_module =
  l_name :: string
  l_path :: "string list option"

definition l_path_truthy :: "legacy_module \<Rightarrow> bool" where
  \<comment> \<open>\<open>if caller.__path__\<close>\<close>
  "l_path_truthy c = (case l_path c of Some (p # ps) \<Rightarrow> True | _ \<Rightarrow> False)"

definition legacy_lookup ::
  "(string \<rightharpoonup> legacy_module) \<Rightarrow> string \<Rightarrow> py_exc + legacy_module option" where
  \<comment> \<open>\<open>self.modules[pname]\<close>, returned as the parent\<close>
  "legacy_lookup mods pname =
     (case mods pname of None \<Rightarrow> Inl KeyError | Some parent \<Rightarrow> Inr (Some parent))"

definition determine_parent ::
  "(string \<rightharpoonup> legacy_module) \<Rightarrow> legacy_module option \<Rightarrow> int \<Rightarrow> py_exc + legacy_module option" where
  "determine_parent mods caller level0 =
     (case caller of
        None \<Rightarrow> Inr None
      | Some c \<Rightarrow>
          if level0 = 0 then Inr None
          else
            (let pname = l_name c in
             if level0 \<ge> 1 then
               (let level = (if l_path_truthy c then level0 - 1 else level0) in
                if level = 0 then
                  (case mods pname of
                     None \<Rightarrow> Inl KeyError
                   | Some parent \<Rightarrow> if parent = c then Inr (Some parent) else Inl AssertionError)
                else if int (count_char CHR ''.'' pname) < level then Inl ImportError
                else
                  (let parts = split_on CHR ''.'' pname
                   in legacy_lookup mods (join_with ''.'' (take (length parts - nat level) parts))))
             else if l_path_truthy c then
               (case mods pname of
                  None \<Rightarrow> Inl KeyError
                | Some parent \<Rightarrow> if parent = c then Inr (Some parent) else Inl AssertionError)
             else if CHR ''.'' \<in> set pname then
               (case mods (fst (rpartition CHR ''.'' pname)) of
                  None \<Rightarrow> Inl KeyError
                | Some parent \<Rightarrow>
                    if l_name parent = fst (rpartition CHR ''.'' pname) then Inr (Some parent)
                    else Inl AssertionError)
             else Inr None))"

subsection \<open>Relative names in the words of the specification\<close>

definition anchor_of :: "string \<Rightarrow> bool \<Rightarrow> string" where
  \<comment> \<open>the module's own name for a package, the name of its parent package otherwise\<close>
  "anchor_of name is_package = (if is_package then name else dotted_parent name)"

definition n_components :: "string \<Rightarrow> nat" where
  \<comment> \<open>the number of dotted components of a name; the empty name has none\<close>
  "n_components a = (if a = [] then 0 else length (split_on CHR ''.'' a))"

definition strip_components :: "nat \<Rightarrow> string \<Rightarrow> string" where
  \<comment> \<open>a name without its last \<open>k\<close> dotted components\<close>
  "strip_components k a =
     join_with ''.'' (take (length (split_on CHR ''.'' a) - k) (split_on CHR ''.'' a))"

definition dotted_join :: "string \<Rightarrow> string \<Rightarrow> string" where
  \<comment> \<open>base and target joined with a dot; the base alone for an empty target\<close>
  "dotted_join base target = (if target = [] then base else base @ ''.'' @ target)"

definition package_attrs_ok :: "mf_module \<Rightarrow> bool" where
  \<comment> \<open>\<open>__package__\<close> and \<open>__spec__.parent\<close>, where set, are what the import system sets\<close>
  "package_attrs_ok m =
     ((dunder_package m = None
        \<or> dunder_package m = Some (anchor_of (dunder_name m) (''__path__'' \<in> attrs m)))
      \<and> (spec_parent m = None
        \<or> spec_parent m = Some (anchor_of (dunder_name m) (''__path__'' \<in> attrs m))))"

definition wf_name :: "string \<Rightarrow> bool" where
  \<comment> \<open>a dotted name: no component is empty\<close>
  "wf_name n = ([] \<notin> set (split_on CHR ''.'' n))"

section \<open>Example sessions\<close>

definition blank_module :: "string \<Rightarrow> mf_module" where
  \<comment> \<open>an \<open>MFModuleType\<close> after \<open>exec_module\<close> found no code for it\<close>
  "blank_module nm =
     \<lparr>dunder_name = nm, dunder_package = None, spec_parent = None, attrs = {},
      is_mf_module = True,
      dunder_code = Value None, mf_global_names = Value {}, mf_star_imports = Value {}\<rparr>"

definition plain_module :: "string \<Rightarrow> mf_module" where
  \<comment> \<open>the \<open>types.ModuleType\<close> the import system makes for a namespace package\<close>
  "plain_module nm =
     \<lparr>dunder_name = nm, dunder_package = Some nm, spec_parent = Some nm, attrs = {''__path__''},
      is_mf_module = False,
      dunder_code = Unset, mf_global_names = Unset, mf_star_imports = Unset\<rparr>"

text \<open>
  The state the test case \<open>maybe\<close> ends in: package \<open>b\<close> did \<open>from sys import *\<close>,
  \<open>a.module\<close> did \<open>from b import something\<close> and \<open>from c import something\<close>.
\<close>

definition maybe_finder :: module_finder where
  "maybe_finder =
     \<lparr>path = [], path_replacements = [], excludes = [],
      modules = [''a'' \<mapsto> 0, ''a.module'' \<mapsto> 1, ''b'' \<mapsto> 2, ''sys'' \<mapsto> 3],
      bad_modules = [(''b.something'', {''a.module''}), (''c'', {''a.module''})],
      objs = (\<lambda>_. blank_module [])
        (0 := blank_module ''a'', 1 := blank_module ''a.module'',
         2 := (blank_module ''b'')\<lparr>mf_star_imports := Value {''sys''}\<rparr>,
         3 := blank_module ''sys'')\<rparr>"

text \<open>
  Package \<open>b\<close> did \<open>from sys import *\<close> and then failed to import its own submodule
  \<open>b.something\<close>.
\<close>

definition own_submodule_finder :: module_finder where
  "own_submodule_finder =
     \<lparr>path = [], path_replacements = [], excludes = [],
      modules = [''b'' \<mapsto> 0, ''sys'' \<mapsto> 1],
      bad_modules = [(''b.something'', {''b''})],
      objs = (\<lambda>_. blank_module [])
        (0 := (blank_module ''b'')\<lparr>mf_star_imports := Value {''sys''}\<rparr>,
         1 := blank_module ''sys'')\<rparr>"

definition rewritten_const :: "(string \<Rightarrow> string) \<Rightarrow> (string \<times> string) list \<Rightarrow> const \<Rightarrow> const" where
  \<comment> \<open>a constant after the rewrite: a nested code object is rewritten, anything else is kept\<close>
  "rewritten_const np rules k =
     (case k of
        ConstCode c \<Rightarrow> ConstCode (replace_paths_in_code np c rules)
      | ConstOther \<Rightarrow> ConstOther)"

text \<open>
  A host on which the import machinery finds the modules already registered and the
  built-in module \<open>sys\<close> (which has no code), and nothing else.
\<close>

definition sys_only_env :: env where
  "sys_only_env =
     \<lparr>import_module = (\<lambda>name module fromlist level mf.
          case modules mf name of
            Some a \<Rightarrow> (Inr a, mf)
          | None \<Rightarrow>
              if name = ''sys''
              then (Inr 100, mf\<lparr>modules := (modules mf)(''sys'' \<mapsto> 100),
                                  objs := (objs mf)(100 := blank_module ''sys'')\<rparr>)
              else (Inl ImportError, mf)),
      normpath = posix_normpath,
      get_code = (\<lambda>name. Inr None),
      spec_from_file_location = (\<lambda>name pathname. Some \<lparr>spec_name = name, spec_has_loader = True\<rparr>),
      fresh_addr = (\<lambda>mf. 101)\<rparr>"

text \<open>
  A session in which package \<open>a\<close> (binding \<open>foo\<close>), its module \<open>a.module\<close> and a
  top-level module \<open>x\<close> are registered.
\<close>

definition relative_finder :: module_finder where
  "relative_finder =
     \<lparr>path = [], path_replacements = [], excludes = [],
      modules = [''a'' \<mapsto> 0, ''a.module'' \<mapsto> 1, ''x'' \<mapsto> 2],
      bad_modules = [],
      objs = (\<lambda>_. blank_module [])
        (0 := (blank_module ''a'')\<lparr>dunder_package := Some ''a'', attrs := {''__path__''},
                                    mf_global_names := Value {''foo''}\<rparr>,
         1 := (blank_module ''a.module'')\<lparr>dunder_package := Some ''a''\<rparr>,
         2 := blank_module ''x'')\<rparr>"

text \<open>
  The state after module \<open>a\<close> did \<open>import ns.missing\<close>, where \<open>ns\<close> is a directory
  without \<open>__init__.py\<close>: the namespace package \<open>ns\<close> is registered as a plain module,
  and its submodule was not found.
\<close>

definition namespace_finder :: module_finder where
  "namespace_finder =
     \<lparr>path = [], path_replacements = [], excludes = [],
      modules = [''a'' \<mapsto> 0, ''ns'' \<mapsto> 1],
      bad_modules = [(''ns.missing'', {''a''})],
      objs = (\<lambda>_. blank_module [])
        (0 := blank_module ''a'', 1 := plain_module ''ns'')\<rparr>"

text \<open>
  A host as \<open>sys_only_env\<close> on which loading \<open>c\<close> ends in \<open>EOFError\<close> (a sourceless
  \<open>c.pyc\<close> that is cut off after its header: \<open>marshal.loads\<close> raises it in
  \<open>get_code\<close>). The import system takes the module out of \<open>sys.modules\<close> again.
\<close>

definition unreadable_env :: env where
  "unreadable_env =
     sys_only_env\<lparr>import_module := (\<lambda>name module fromlist level mf.
        if name = ''c'' then (Inl EOFError, mf)
        else import_module sys_only_env name module fromlist level mf)\<rparr>"

text \<open>
  A host as \<open>sys_only_env\<close> with a package \<open>b\<close> (an empty \<open>b/__init__.py\<close>) whose
  submodule \<open>b/module.py\<close> has a syntax error: \<open>importlib.__import__\<close> for \<open>b\<close> with
  \<open>module\<close> in the fromlist imports and registers \<open>b\<close>, then fails to load
  \<open>b.module\<close> and raises \<open>SyntaxError\<close>.
\<close>

definition broken_submodule_env :: env where
  "broken_submodule_env =
     sys_only_env\<lparr>import_module := (\<lambda>name module fromlist level mf.
        if name = ''b'' \<and> ''module'' \<in> set fromlist
        then (Inl SyntaxError,
              mf\<lparr>modules := (modules mf)(''b'' \<mapsto> 100),
                 objs := (objs mf)
                   (100 := (blank_module ''b'')
                      \<lparr>dunder_package := Some ''b'', attrs := {''__path__''},
                       dunder_code := Value (Some (Code ''b/__init__.py'' [] [] []))\<rparr>)\<rparr>)
        else import_module sys_only_env name module fromlist level mf)\<rparr>"

text \<open>The registry of the older variant with package \<open>a\<close> and its module \<open>a.module\<close>.\<close>

definition legacy_package :: legacy_module where
  "legacy_package = \<lparr>l_name = ''a'', l_path = Some [''a'']\<rparr>"

definition legacy_plain :: legacy_module where
  "legacy_plain = \<lparr>l_name = ''a.module'', l_path = None\<rparr>"

definition legacy_registry :: "string \<rightharpoonup> legacy_module" where
  "legacy_registry = [''a'' \<mapsto> legacy_package, ''a.module'' \<mapsto> legacy_plain]"

section \<open>Facts about the string operations\<close>

lemma split_on_nonempty: "split_on sep s \<noteq> []"
  by (induction s) (auto split: list.splits)

lemma split_on_no_sep: "sep \<notin> set s \<Longrightarrow> split_on sep s = [s]"
  by (induction s) (auto split: list.splits)

lemma split_on_append_sep: "split_on sep (p @ sep # t) = split_on sep p @ split_on sep t"
proof (induction p)
  case Nil
  show ?case by simp
next
  case (Cons c p)
  have "split_on sep p \<noteq> []" by (rule split_on_nonempty)
  then show ?case using Cons by (cases "split_on sep p") auto
qed

lemma join_split_on: "join_with [sep] (split_on sep s) = s"
proof (induction s)
  case Nil
  show ?case by simp
next
  case (Cons c s)
  obtain w ws where ws: "split_on sep s = w # ws"
    using split_on_nonempty [of sep s] by (cases "split_on sep s") auto
  show ?case
  proof (cases "c = sep")
    case True
    then show ?thesis using Cons ws by simp
  next
    case False
    then show ?thesis using Cons ws by (cases ws) auto
  qed
qed

lemma last_sep_decomp: "sep \<in> set s \<Longrightarrow> \<exists>p t. s = p @ sep # t \<and> sep \<notin> set t"
  using split_list_last by metis

lemma rpartition_decomp:
  assumes "sep \<notin> set t"
  shows "rpartition sep (p @ sep # t) = (p, [sep], t)"
proof -
  have tw: "takeWhile (\<lambda>c. c \<noteq> sep) (rev t @ sep # rev p) = rev t"
    using assms by (simp add: takeWhile_append)
  have dw: "dropWhile (\<lambda>c. c \<noteq> sep) (rev t @ sep # rev p) = sep # rev p"
    using assms by (simp add: dropWhile_append)
  show ?thesis unfolding rpartition_def using tw dw by simp
qed

lemma rpartition_dotted:
  assumes "CHR ''.'' \<in> set n"
  shows "rpartition CHR ''.'' n = (dotted_parent n, ''.'', dotted_tail n)"
proof -
  obtain p t where n: "n = p @ CHR ''.'' # t" and t: "CHR ''.'' \<notin> set t"
    using last_sep_decomp [OF assms] by blast
  have sp: "split_on CHR ''.'' n = split_on CHR ''.'' p @ [t]"
    using n t by (simp add: split_on_append_sep split_on_no_sep)
  have "dotted_parent n = p" unfolding dotted_parent_def sp by (simp add: join_split_on)
  moreover have "dotted_tail n = t" unfolding dotted_tail_def sp by simp
  ultimately show ?thesis using rpartition_decomp [OF t, of p] n by simp
qed

section \<open>The classifier\<close>

lemma placed_Nil: "placed mf v [] = []"
  by (simp add: placed_def)

lemma placed_Cons:
  "placed mf v ((n, i) # es) =
     (if n \<notin> set (excludes mf) \<and> spec_classify mf n i = v then n # placed mf v es
      else placed mf v es)"
  by (simp add: placed_def)

text \<open>
  The loop raises \<open>AttributeError\<close> exactly when it comes to an entry at which it reads
  an attribute that is not set; otherwise it appends to the two lists the keys the
  rule places there, in order.
\<close>

lemma classify_loop_result:
  "classify_loop mf es missing maybe =
     (if list_all (\<lambda>(n, i). entry_readable mf n i) es
      then Inr (missing @ placed mf DefinitelyMissing es, maybe @ placed mf MaybeMissing es)
      else Inl AttributeError)"
proof (induction es arbitrary: missing maybe)
  case Nil
  show ?case by (simp add: placed_Nil)
next
  case (Cons e es)
  obtain name importers where e: "e = (name, importers)" by (cases e)
  show ?case
  proof (cases "name \<in> set (excludes mf)")
    case True
    then show ?thesis unfolding e by (simp add: placed_Cons Cons entry_readable_def)
  next
    case excl: False
    show ?thesis
    proof (cases "CHR ''.'' \<in> set name")
      case False
      then show ?thesis unfolding e using excl
        by (simp add: placed_Cons Cons spec_classify_def entry_readable_def)
    next
      case True
      note rp = rpartition_dotted [OF True]
      show ?thesis
      proof (cases "modules mf (dotted_parent name)")
        case None
        then show ?thesis unfolding e using excl True rp
          by (simp add: placed_Cons Cons spec_classify_def entry_readable_def)
      next
        case (Some a)
        show ?thesis
        proof (cases "dotted_parent name \<in> importers")
          case own: True
          then show ?thesis unfolding e using excl True rp Some
            by (simp add: placed_Cons Cons spec_classify_def entry_readable_def)
        next
          case other: False
          show ?thesis
          proof (cases "mf_global_names (objs mf a)")
            case Unset
            then show ?thesis unfolding e using excl True rp Some other
              by (simp add: entry_readable_def)
          next
            case names: (Value global_names)
            show ?thesis
            proof (cases "dotted_tail name \<in> global_names")
              case bound: True
              then show ?thesis unfolding e using excl True rp Some other names
                by (simp add: placed_Cons Cons spec_classify_def entry_readable_def bound_names_def)
            next
              case unbound: False
              show ?thesis
              proof (cases "mf_star_imports (objs mf a)")
                case Unset
                then show ?thesis unfolding e using excl True rp Some other names unbound
                  by (simp add: entry_readable_def)
              next
                case (Value star_imports)
                then show ?thesis unfolding e using excl True rp Some other names unbound
                  by (simp add: placed_Cons Cons spec_classify_def entry_readable_def
                      bound_names_def wildcard_sources_def)
              qed
            qed
          qed
        qed
      qed
    qed
  qed
qed

lemma placed_set:
  "set (placed mf v es) =
     {n. \<exists>i. (n, i) \<in> set es \<and> n \<notin> set (excludes mf) \<and> spec_classify mf n i = v}"
  unfolding placed_def by force

lemma placed_mem:
  assumes "distinct (map fst es)" and "(n, i) \<in> set es"
  shows "n \<in> set (placed mf v es) \<longleftrightarrow> n \<notin> set (excludes mf) \<and> spec_classify mf n i = v"
proof -
  have uniq: "\<And>j. (n, j) \<in> set es \<Longrightarrow> j = i"
    using assms by (meson eq_key_imp_eq_value)
  show ?thesis unfolding placed_set using assms(2) uniq by blast
qed

lemma placed_distinct: "distinct (map fst es) \<Longrightarrow> distinct (placed mf v es)"
  unfolding placed_def by (simp add: distinct_map_filter)

lemma any_missing_maybe_result:
  "any_missing_maybe mf =
     (if list_all (\<lambda>(n, i). entry_readable mf n i) (bad_modules mf)
      then (Inr (sort (placed mf DefinitelyMissing (bad_modules mf)),
                 sort (placed mf MaybeMissing (bad_modules mf))), mf)
      else (Inl AttributeError, mf))"
  by (simp add: any_missing_maybe_def classify_loop_result)

lemma returned_lists:
  assumes "fst (any_missing_maybe mf) = Inr (missing, maybe)"
  shows "missing = sort (placed mf DefinitelyMissing (bad_modules mf))"
    and "maybe = sort (placed mf MaybeMissing (bad_modules mf))"
  using assms by (auto simp add: any_missing_maybe_result split: if_splits)

lemma finder_after: "snd (any_missing_maybe mf) = mf"
  by (simp add: any_missing_maybe_result)

text \<open>
  Whenever the call returns its lists, a failed name that is not excluded is in the
  list of missing modules exactly when the rule of the specification makes it
  definitely missing, and in the list of maybe-missing modules exactly when the rule
  makes it maybe missing.
\<close>

lemma returned_lists_follow_rule:
  assumes "distinct (map fst (bad_modules mf))"
    and "(n, importers) \<in> set (bad_modules mf)"
    and "n \<notin> set (excludes mf)"
    and "fst (any_missing_maybe mf) = Inr (missing, maybe)"
  shows "(n \<in> set missing \<longleftrightarrow> spec_classify mf n importers = DefinitelyMissing)
       \<and> (n \<in> set maybe \<longleftrightarrow> spec_classify mf n importers = MaybeMissing)"
  unfolding returned_lists [OF assms(4)] using assms(1-3) by (simp add: placed_mem)

lemma spec_classify_registered:
  assumes "CHR ''.'' \<in> set n" and "modules mf (dotted_parent n) = Some a"
  shows "spec_classify mf n importers =
           (if dotted_parent n \<in> importers then DefinitelyMissing
            else if dotted_tail n \<in> bound_names (objs mf a) then NotMissing
            else if wildcard_sources (objs mf a) \<noteq> {} then MaybeMissing
            else DefinitelyMissing)"
  using assms by (simp add: spec_classify_def Let_def)

lemma namespace_parent: "dotted_parent ''ns.missing'' = ''ns''"
  by (simp add: dotted_parent_def)

text \<open>
  C1 at a concrete session. Module \<open>a\<close> did \<open>import ns.missing\<close> with \<open>ns\<close> a namespace
  package: the failed name \<open>ns.missing\<close> is not excluded, its parent \<open>ns\<close> is
  registered and is not among its importers, \<open>ns\<close> binds no name and has no wildcard
  source, so the rule makes the name definitely missing. The call raises
  \<open>AttributeError\<close> instead (the plain module has no \<open>__mf_global_names__\<close>) and
  returns no list.
\<close>

theorem namespace_parent_raises:
  "bad_modules namespace_finder = [(''ns.missing'', {''a''})]
   \<and> ''ns.missing'' \<notin> set (excludes namespace_finder)
   \<and> modules namespace_finder (dotted_parent ''ns.missing'') = Some 1
   \<and> spec_classify namespace_finder ''ns.missing'' {''a''} = DefinitelyMissing
   \<and> any_missing_maybe namespace_finder = (Inl AttributeError, namespace_finder)"
proof -
  have b: "bad_modules namespace_finder = [(''ns.missing'', {''a''})]"
    by (simp add: namespace_finder_def)
  have x: "''ns.missing'' \<notin> set (excludes namespace_finder)"
    by (simp add: namespace_finder_def)
  have p: "modules namespace_finder (dotted_parent ''ns.missing'') = Some 1"
    unfolding namespace_parent by (simp add: namespace_finder_def)
  have g: "mf_global_names (objs namespace_finder 1) = Unset"
    by (simp add: namespace_finder_def plain_module_def)
  have s: "mf_star_imports (objs namespace_finder 1) = Unset"
    by (simp add: namespace_finder_def plain_module_def)
  have d: "CHR ''.'' \<in> set ''ns.missing''" by simp
  have v: "spec_classify namespace_finder ''ns.missing'' {''a''} = DefinitelyMissing"
    unfolding spec_classify_registered [OF d p] namespace_parent using g s
    by (simp add: bound_names_def wildcard_sources_def)
  have r: "\<not> entry_readable namespace_finder ''ns.missing'' {''a''}"
    unfolding entry_readable_def p using g x namespace_parent by simp
  have run: "any_missing_maybe namespace_finder = (Inl AttributeError, namespace_finder)"
    unfolding any_missing_maybe_result b using r by simp
  show ?thesis using b x p v run by simp
qed

lemma maybe_finder_keys: "distinct (map fst (bad_modules maybe_finder))"
  by (simp add: maybe_finder_def)

lemma something_parent: "dotted_parent ''b.something'' = ''b''"
  by (simp add: dotted_parent_def)

lemma something_tail: "dotted_tail ''b.something'' = ''something''"
  by (simp add: dotted_tail_def)

lemma maybe_finder_run: "fst (any_missing_maybe maybe_finder) = Inr ([''c''], [''b.something''])"
proof -
  have b: "bad_modules maybe_finder = [(''b.something'', {''a.module''}), (''c'', {''a.module''})]"
    by (simp add: maybe_finder_def)
  have x: "excludes maybe_finder = []"
    by (simp add: maybe_finder_def)
  have p: "modules maybe_finder ''b'' = Some 2"
    by (simp add: maybe_finder_def)
  have d: "CHR ''.'' \<in> set ''b.something''" by simp
  have p': "modules maybe_finder (dotted_parent ''b.something'') = Some 2"
    unfolding something_parent by (rule p)
  have g: "mf_global_names (objs maybe_finder 2) = Value {}"
    by (simp add: maybe_finder_def blank_module_def)
  have s: "mf_star_imports (objs maybe_finder 2) = Value {''sys''}"
    by (simp add: maybe_finder_def blank_module_def)
  have v1: "spec_classify maybe_finder ''b.something'' {''a.module''} = MaybeMissing"
    unfolding spec_classify_registered [OF d p'] something_parent something_tail using g s
    by (simp add: bound_names_def wildcard_sources_def)
  have v2: "spec_classify maybe_finder ''c'' {''a.module''} = DefinitelyMissing"
    by (simp add: spec_classify_def)
  have r1: "entry_readable maybe_finder ''b.something'' {''a.module''}"
    unfolding entry_readable_def something_parent something_tail p using g s by simp
  have r2: "entry_readable maybe_finder ''c'' {''a.module''}"
    by (simp add: entry_readable_def)
  show ?thesis
    unfolding any_missing_maybe_result b using r1 r2 v1 v2 x
    by (simp add: placed_Cons placed_Nil)
qed

lemma own_submodule_finder_keys: "distinct (map fst (bad_modules own_submodule_finder))"
  by (simp add: own_submodule_finder_def)

text \<open>
  C2, as stated, fails: a name whose parent package is registered and has an unresolved
  wildcard source is still listed as missing when the parent itself is among its
  importers (the branch \<open>pkgname in self.bad_modules[name]\<close> comes first).
\<close>

theorem wildcard_parent_still_missing_counterexample:
  "modules own_submodule_finder (dotted_parent ''b.something'') = Some 0
   \<and> mf_star_imports (objs own_submodule_finder 0) = Value {''sys''}
   \<and> fst (any_missing_maybe own_submodule_finder) = Inr ([''b.something''], [])"
proof -
  have b: "bad_modules own_submodule_finder = [(''b.something'', {''b''})]"
    by (simp add: own_submodule_finder_def)
  have x: "excludes own_submodule_finder = []"
    by (simp add: own_submodule_finder_def)
  have p: "modules own_submodule_finder ''b'' = Some 0"
    by (simp add: own_submodule_finder_def)
  have s: "mf_star_imports (objs own_submodule_finder 0) = Value {''sys''}"
    by (simp add: own_submodule_finder_def blank_module_def)
  have d: "CHR ''.'' \<in> set ''b.something''" by simp
  have p': "modules own_submodule_finder (dotted_parent ''b.something'') = Some 0"
    unfolding something_parent by (rule p)
  have v: "spec_classify own_submodule_finder ''b.something'' {''b''} = DefinitelyMissing"
    unfolding spec_classify_registered [OF d p'] something_parent by simp
  have r: "entry_readable own_submodule_finder ''b.something'' {''b''}"
    unfolding entry_readable_def something_parent p by simp
  have run: "fst (any_missing_maybe own_submodule_finder) = Inr ([''b.something''], [])"
    unfolding any_missing_maybe_result b using r v x
    by (simp add: placed_Cons placed_Nil)
  show ?thesis unfolding something_parent using p s run by simp
qed

text \<open>
  C2, amended. If the parent of a failed name is registered, has an unresolved wildcard
  source and is not itself among the importers recorded for the name, the name is not
  in the list of missing modules that the call returns.
\<close>

theorem wildcard_parent_not_missing:
  assumes "distinct (map fst (bad_modules mf))"
    and "(n, importers) \<in> set (bad_modules mf)"
    and "CHR ''.'' \<in> set n"
    and "modules mf (dotted_parent n) = Some a"
    and "mf_star_imports (objs mf a) = Value star_imports"
    and "star_imports \<noteq> {}"
    and "dotted_parent n \<notin> importers"
    and "fst (any_missing_maybe mf) = Inr (missing, maybe)"
  shows "n \<notin> set missing"
proof -
  have "spec_classify mf n importers \<noteq> DefinitelyMissing"
    using assms(3-7) by (simp add: spec_classify_def wildcard_sources_def)
  then show ?thesis
    unfolding returned_lists [OF assms(8)]
    using placed_mem [OF assms(1,2), of mf DefinitelyMissing] by simp
qed

theorem wildcard_parent_not_missing_witness:
  "fst (any_missing_maybe maybe_finder) = Inr ([''c''], [''b.something''])
   \<and> ''b.something'' \<notin> set [''c'']"
proof -
  have e: "(''b.something'', {''a.module''}) \<in> set (bad_modules maybe_finder)"
    by (simp add: maybe_finder_def)
  have d: "CHR ''.'' \<in> set ''b.something''" by simp
  have p: "modules maybe_finder (dotted_parent ''b.something'') = Some 2"
    unfolding something_parent by (simp add: maybe_finder_def)
  have s: "mf_star_imports (objs maybe_finder 2) = Value {''sys''}"
    by (simp add: maybe_finder_def blank_module_def)
  have ne: "{''sys''} \<noteq> ({} :: string set)" by simp
  have i: "dotted_parent ''b.something'' \<notin> {''a.module''}"
    unfolding something_parent by simp
  have "''b.something'' \<notin> set [''c'']"
    by (rule wildcard_parent_not_missing [OF maybe_finder_keys e d p s ne i maybe_finder_run])
  then show ?thesis using maybe_finder_run by simp
qed

text \<open>
  C10. The call returns its two lists exactly when the loop reads no attribute that is
  not set (otherwise it raises \<open>AttributeError\<close>). The lists it returns are
  duplicate-free and disjoint, and every name in them is a key of \<open>bad_modules\<close> that
  is not excluded. Whether it returns or raises, the call leaves \<open>modules\<close>,
  \<open>bad_modules\<close> and \<open>excludes\<close> as they were. (The keys of a \<open>dict\<close> are distinct.)
\<close>

theorem any_missing_maybe_lists:
  assumes "distinct (map fst (bad_modules mf))"
  shows "((\<exists>missing maybe. fst (any_missing_maybe mf) = Inr (missing, maybe))
            \<longleftrightarrow> list_all (\<lambda>(n, i). entry_readable mf n i) (bad_modules mf))
       \<and> (\<forall>missing maybe. fst (any_missing_maybe mf) = Inr (missing, maybe) \<longrightarrow>
            distinct missing \<and> distinct maybe \<and> set missing \<inter> set maybe = {}
            \<and> set missing \<union> set maybe \<subseteq> fst ` set (bad_modules mf) - set (excludes mf))
       \<and> modules (snd (any_missing_maybe mf)) = modules mf
       \<and> bad_modules (snd (any_missing_maybe mf)) = bad_modules mf
       \<and> excludes (snd (any_missing_maybe mf)) = excludes mf"
proof -
  let ?es = "bad_modules mf"
  have d1: "distinct (sort (placed mf DefinitelyMissing ?es))"
    using placed_distinct [OF assms] by simp
  have d2: "distinct (sort (placed mf MaybeMissing ?es))"
    using placed_distinct [OF assms] by simp
  have disj: "set (placed mf DefinitelyMissing ?es) \<inter> set (placed mf MaybeMissing ?es) = {}"
  proof (rule ccontr)
    assume "\<not> ?thesis"
    then obtain n where a: "n \<in> set (placed mf DefinitelyMissing ?es)"
      and b: "n \<in> set (placed mf MaybeMissing ?es)" by blast
    from a obtain i where i: "(n, i) \<in> set ?es" unfolding placed_set by blast
    have "spec_classify mf n i = DefinitelyMissing" using placed_mem [OF assms i] a by simp
    moreover have "spec_classify mf n i = MaybeMissing" using placed_mem [OF assms i] b by simp
    ultimately show False by simp
  qed
  have sub: "set (placed mf v ?es) \<subseteq> fst ` set ?es - set (excludes mf)" for v
    unfolding placed_set by force
  have returns: "(\<exists>missing maybe. fst (any_missing_maybe mf) = Inr (missing, maybe))
                   \<longleftrightarrow> list_all (\<lambda>(n, i). entry_readable mf n i) ?es"
    by (simp add: any_missing_maybe_result)
  have lists: "distinct missing \<and> distinct maybe \<and> set missing \<inter> set maybe = {}
                 \<and> set missing \<union> set maybe \<subseteq> fst ` set ?es - set (excludes mf)"
    if "fst (any_missing_maybe mf) = Inr (missing, maybe)" for missing maybe
    unfolding returned_lists [OF that]
    using d1 d2 disj sub [of DefinitelyMissing] sub [of MaybeMissing] by simp
  show ?thesis
    using returns lists by (simp add: finder_after)
qed

theorem any_missing_maybe_lists_witness:
  "fst (any_missing_maybe maybe_finder) = Inr ([''c''], [''b.something''])
   \<and> distinct [''c''] \<and> distinct [''b.something'']
   \<and> set [''c''] \<inter> set [''b.something''] = {}
   \<and> set [''c''] \<union> set [''b.something'']
        \<subseteq> fst ` set (bad_modules maybe_finder) - set (excludes maybe_finder)
   \<and> modules (snd (any_missing_maybe maybe_finder)) = modules maybe_finder
   \<and> bad_modules (snd (any_missing_maybe maybe_finder)) = bad_modules maybe_finder
   \<and> excludes (snd (any_missing_maybe maybe_finder)) = excludes maybe_finder"
proof -
  have all: "\<forall>missing maybe. fst (any_missing_maybe maybe_finder) = Inr (missing, maybe) \<longrightarrow>
            distinct missing \<and> distinct maybe \<and> set missing \<inter> set maybe = {}
            \<and> set missing \<union> set maybe
                 \<subseteq> fst ` set (bad_modules maybe_finder) - set (excludes maybe_finder)"
    and frame: "modules (snd (any_missing_maybe maybe_finder)) = modules maybe_finder"
      "bad_modules (snd (any_missing_maybe maybe_finder)) = bad_modules maybe_finder"
      "excludes (snd (any_missing_maybe maybe_finder)) = excludes maybe_finder"
    using any_missing_maybe_lists [OF maybe_finder_keys] by blast+
  have "distinct [''c''] \<and> distinct [''b.something'']
        \<and> set [''c''] \<inter> set [''b.something''] = {}
        \<and> set [''c''] \<union> set [''b.something'']
             \<subseteq> fst ` set (bad_modules maybe_finder) - set (excludes maybe_finder)"
    using all maybe_finder_run by blast
  then show ?thesis using frame maybe_finder_run by blast
qed

lemma sorted_lists:
  assumes "fst (any_missing_maybe mf) = Inr (missing, maybe)"
  shows "sorted missing \<and> sorted maybe"
  unfolding returned_lists [OF assms] by simp

section \<open>Rewriting file names\<close>


lemma str_replace1_prefix:
  "startswith s old \<Longrightarrow> str_replace1 s old new = new @ drop (length old) s"
  by (cases s) (auto simp: startswith_def)

lemma rewrite_filename_find:
  "rewrite_filename rules f =
     (case find (\<lambda>(old_path, new_path). startswith f old_path) rules of
        None \<Rightarrow> f
      | Some (old_path, new_path) \<Rightarrow> new_path @ drop (length old_path) f)"
  by (induction rules) (auto simp: str_replace1_prefix)

lemma replace_paths_in_const_eq: "replace_paths_in_const np k rules = rewritten_const np rules k"
  by (cases k) (simp_all add: rewritten_const_def)

lemma replace_paths_in_code_Code:
  "replace_paths_in_code np (Code f ks ss imps) rules =
     Code (rewrite_filename rules (np f)) (map (rewritten_const np rules) ks) ss imps"
  by (simp add: replace_paths_in_const_eq)

text \<open>
  C9, amended. The file name is first normalised with \<open>os.path.normpath\<close>. The first
  rule whose prefix the normalised name starts with replaces that prefix, once (the
  rest of the name is kept as it is); if no rule matches, the normalised name is
  recorded. Every code object among the constants is rewritten in the same way, and
  nothing else of the code object changes.
\<close>

theorem replace_paths_normalised:
  "co_filename (replace_paths_in_code np c rules) =
     (case find (\<lambda>(old_path, new_path). startswith (np (co_filename c)) old_path) rules of
        None \<Rightarrow> np (co_filename c)
      | Some (old_path, new_path) \<Rightarrow> new_path @ drop (length old_path) (np (co_filename c)))
   \<and> co_consts (replace_paths_in_code np c rules) = map (rewritten_const np rules) (co_consts c)
   \<and> co_store_names (replace_paths_in_code np c rules) = co_store_names c
   \<and> co_imports (replace_paths_in_code np c rules) = co_imports c"
proof -
  obtain f ks ss imps where c: "c = Code f ks ss imps" by (cases c)
  show ?thesis
    unfolding c replace_paths_in_code_Code code.sel rewrite_filename_find by simp
qed



lemma split_hello:
  "split_on CHR ''/'' ''/srv/app/../lib/hello.py'' = ['''', ''srv'', ''app'', ''..'', ''lib'', ''hello.py'']"
  by simp

lemma np1: "posix_normpath ''/srv/app/../lib/hello.py'' = ''/srv/lib/hello.py''"
  unfolding posix_normpath_def split_hello by (simp add: startswith_def)

text \<open>
  C9, as stated, fails: no rule matches \<open>/srv/app/../lib/hello.py\<close>, and yet the
  recorded file name changes, to its normal form.
\<close>

theorem unmatched_filename_changes_counterexample:
  "find (\<lambda>(old_path, new_path). startswith ''/srv/app/../lib/hello.py'' old_path) [(''/opt'', ''/usr'')] = None
   \<and> co_filename (replace_paths_in_code posix_normpath
         (Code ''/srv/app/../lib/hello.py'' [] [] []) [(''/opt'', ''/usr'')]) = ''/srv/lib/hello.py''
   \<and> ''/srv/lib/hello.py'' \<noteq> ''/srv/app/../lib/hello.py''"
  unfolding replace_paths_in_code_Code np1 by (simp add: startswith_def)

section \<open>Scanning import directives\<close>

lemma setdefault_add_map_fst:
  "map fst (setdefault_add d key x) =
     (if key \<in> set (map fst d) then map fst d else map fst d @ [key])"
  by (induction d) (force simp: image_iff)+

lemma setdefault_add_keys:
  "fst ` set (setdefault_add d key x) = insert key (fst ` set d)"
proof -
  have "set (map fst (setdefault_add d key x)) = insert key (set (map fst d))"
    unfolding setdefault_add_map_fst by auto
  then show ?thesis by simp
qed

lemma setdefault_add_distinct:
  "distinct (map fst d) \<Longrightarrow> distinct (map fst (setdefault_add d key x))"
  by (induction d) (auto simp: setdefault_add_keys)

lemma importers_of_setdefault_add:
  "importers_of (setdefault_add d key x) k =
     (if k = key then insert x (importers_of d key) else importers_of d k)"
  by (induction d) (auto simp: importers_of_def)

lemma note_bad_simps:
  "objs (note_bad key importer mf) = objs mf"
  "modules (note_bad key importer mf) = modules mf"
  "excludes (note_bad key importer mf) = excludes mf"
  "bad_modules (note_bad key importer mf) = setdefault_add (bad_modules mf) key importer"
  by (simp_all add: note_bad_def)

lemma update_module_simps:
  "bad_modules (update_module a f mf) = bad_modules mf"
  "modules (update_module a f mf) = modules mf"
  "excludes (update_module a f mf) = excludes mf"
  "objs (update_module a f mf) b = (if b = a then f (objs mf a) else objs mf b)"
  by (simp_all add: update_module_def)

lemma check_fromlist_frame:
  "objs (check_fromlist name r module fl mf) = objs mf
   \<and> modules (check_fromlist name r module fl mf) = modules mf"
  by (induction fl arbitrary: mf) (simp_all add: note_bad_simps)

lemma check_fromlist_keys:
  "fst ` set (bad_modules (check_fromlist name r module fl mf)) =
     fst ` set (bad_modules mf) \<union> {name @ ''.'' @ f | f. f \<in> set fl \<and> f \<notin> attrs (objs mf r)}"
proof (induction fl arbitrary: mf)
  case Nil
  show ?case by simp
next
  case (Cons f fl)
  show ?case
    by (simp add: Cons check_fromlist_frame note_bad_simps setdefault_add_keys) blast
qed

lemma check_fromlist_mono:
  "x \<in> importers_of (bad_modules mf) k
     \<Longrightarrow> x \<in> importers_of (bad_modules (check_fromlist name r module fl mf)) k"
proof (induction fl arbitrary: mf)
  case Nil
  then show ?case by simp
next
  case (Cons f fl)
  have "x \<in> importers_of (bad_modules (note_bad k' y mf)) k" for k' y
    using Cons.prems by (auto simp add: note_bad_simps importers_of_setdefault_add)
  then show ?case using Cons.IH Cons.prems by simp
qed

lemma check_fromlist_records:
  "f \<in> set fl \<Longrightarrow> f \<notin> attrs (objs mf r)
     \<Longrightarrow> dunder_name (objs mf module)
           \<in> importers_of (bad_modules (check_fromlist name r module fl mf)) (name @ ''.'' @ f)"
proof (induction fl arbitrary: mf)
  case Nil
  then show ?case by simp
next
  case (Cons g fl)
  show ?case
  proof (cases "g = f")
    case True
    have "dunder_name (objs mf module)
            \<in> importers_of (bad_modules (note_bad (name @ ''.'' @ f) (dunder_name (objs mf module)) mf))
                 (name @ ''.'' @ f)"
      by (simp add: note_bad_simps importers_of_setdefault_add)
    then show ?thesis using True Cons.prems(2) by (simp add: check_fromlist_mono)
  next
    case False
    then have "f \<in> set fl" using Cons.prems(1) by simp
    then show ?thesis using Cons.IH [of "note_bad (name @ ''.'' @ g) (dunder_name (objs mf module)) mf"]
        Cons.IH [of mf] Cons.prems(2)
      by (simp add: note_bad_simps)
  qed
qed

lemma explicit_names_set:
  "set (explicit_names fromlist) = (case fromlist of Some fl \<Rightarrow> set fl - {''*''} | None \<Rightarrow> {})"
  by (auto simp: explicit_names_def split: option.splits)

lemma scan_import_ok:
  assumes "try_import e module name (explicit_names fromlist) level mf = (Inr result, target, mf1)"
  shows "scan_import e module name fromlist level mf =
           (let mf2 = (if ''__path__'' \<in> attrs (objs mf1 result)
                       then check_fromlist target result module (explicit_names fromlist) mf1
                       else mf1)
            in if have_star_of fromlist then star_import module target mf2 else (None, mf2))"
  using assms by (simp add: scan_import_def Let_def)

lemma scan_import_caught:
  assumes "try_import e module name (explicit_names fromlist) level mf = (Inl exc, key, mf1)"
    and "exc = ImportError \<or> exc = SyntaxError"
  shows "scan_import e module name fromlist level mf =
           (let mf2 = note_bad key (dunder_name (objs mf1 module)) mf1
            in if have_star_of fromlist then star_import module key mf2 else (None, mf2))"
  using assms by (auto simp add: scan_import_def Let_def)

lemma scan_import_escapes:
  assumes "try_import e module name (explicit_names fromlist) level mf = (Inl exc, key, mf1)"
    and "exc \<noteq> ImportError" and "exc \<noteq> SyntaxError"
  shows "scan_import e module name fromlist level mf = (Some exc, mf1)"
  using assms by (simp add: scan_import_def Let_def)

text \<open>
  A directive without \<open>*\<close> whose import returns: if the module returned is a package,
  every name of the fromlist that is not an attribute of it gets the importing module
  recorded under the key \<open>target.name\<close>, and these are the only keys added.
\<close>

lemma returned_import_fromlist:
  assumes "try_import e module name (explicit_names fromlist) level mf = (Inr result, target, mf1)"
    and "\<not> have_star_of fromlist"
  shows "\<exists>mf2. scan_opcode e module (OpImport name fromlist level) mf = (None, mf2)
            \<and> objs mf2 = objs mf1 \<and> modules mf2 = modules mf1
            \<and> fst ` set (bad_modules mf2) =
                fst ` set (bad_modules mf1)
                \<union> (if ''__path__'' \<in> attrs (objs mf1 result)
                    then {target @ ''.'' @ f | f.
                            f \<in> set (explicit_names fromlist) \<and> f \<notin> attrs (objs mf1 result)}
                    else {})
            \<and> (''__path__'' \<in> attrs (objs mf1 result) \<longrightarrow>
                 (\<forall>f \<in> set (explicit_names fromlist). f \<notin> attrs (objs mf1 result) \<longrightarrow>
                    dunder_name (objs mf1 module)
                      \<in> importers_of (bad_modules mf2) (target @ ''.'' @ f)))"
proof -
  let ?fl = "explicit_names fromlist"
  let ?mf2 = "if ''__path__'' \<in> attrs (objs mf1 result)
              then check_fromlist target result module ?fl mf1 else mf1"
  have run: "scan_opcode e module (OpImport name fromlist level) mf = (None, ?mf2)"
    using scan_import_ok [OF assms(1)] assms(2) by (simp add: Let_def)
  have frame: "objs ?mf2 = objs mf1 \<and> modules ?mf2 = modules mf1"
    by (simp add: check_fromlist_frame)
  have keys: "fst ` set (bad_modules ?mf2) =
                fst ` set (bad_modules mf1)
                \<union> (if ''__path__'' \<in> attrs (objs mf1 result)
                    then {target @ ''.'' @ f | f. f \<in> set ?fl \<and> f \<notin> attrs (objs mf1 result)}
                    else {})"
    by (simp add: check_fromlist_keys)
  have recs: "''__path__'' \<in> attrs (objs mf1 result) \<longrightarrow>
                 (\<forall>f \<in> set ?fl. f \<notin> attrs (objs mf1 result) \<longrightarrow>
                    dunder_name (objs mf1 module)
                      \<in> importers_of (bad_modules ?mf2) (target @ ''.'' @ f))"
    using check_fromlist_records [of _ ?fl mf1 result module target] by auto
  show ?thesis
    using run frame keys recs by (intro exI [of _ ?mf2] conjI) simp_all
qed

lemma try_import_key:
  assumes "try_import e module name fl level mf = (r, key, mf1)"
  shows "key = (if level > 0
                then (case resolve_name (replicate (nat level) CHR ''.'' @ name)
                             (calc_package (objs mf module)) of
                        Inl exc \<Rightarrow> name
                      | Inr absolute \<Rightarrow> absolute)
                else name)"
  using assms by (auto simp: try_import_def split: sum.splits prod.splits if_splits)

text \<open>
  A directive without \<open>*\<close> whose import raises \<open>ImportError\<close> or \<open>SyntaxError\<close>: the
  scan of the directive ends without an exception, the importing module is added to
  the importers recorded under the value \<open>name\<close> has at that moment, other entries
  are untouched, and the loop goes on with the next directive.
\<close>

lemma caught_failure_recorded:
  assumes "try_import e module name (explicit_names fromlist) level mf = (Inl exc, key, mf1)"
    and "exc = ImportError \<or> exc = SyntaxError"
    and "\<not> have_star_of fromlist"
  shows "\<exists>mf2. scan_opcode e module (OpImport name fromlist level) mf = (None, mf2)
            \<and> key \<in> fst ` set (bad_modules mf2)
            \<and> importers_of (bad_modules mf2) key =
                insert (dunder_name (objs mf1 module)) (importers_of (bad_modules mf1) key)
            \<and> (\<forall>k. k \<noteq> key \<longrightarrow> importers_of (bad_modules mf2) k = importers_of (bad_modules mf1) k)
            \<and> scan_loop e module (OpImport name fromlist level # rest) mf
                = scan_loop e module rest mf2"
proof -
  let ?mf2 = "note_bad key (dunder_name (objs mf1 module)) mf1"
  have run: "scan_opcode e module (OpImport name fromlist level) mf = (None, ?mf2)"
    using scan_import_caught [OF assms(1,2)] assms(3) by (simp add: Let_def)
  have bad: "bad_modules ?mf2 = setdefault_add (bad_modules mf1) key (dunder_name (objs mf1 module))"
    by (simp add: note_bad_simps)
  have loop: "scan_loop e module (OpImport name fromlist level # rest) mf
                = scan_loop e module rest ?mf2"
    using run by simp
  show ?thesis
    apply (rule exI [of _ ?mf2])
    using run loop unfolding bad
    by (simp add: setdefault_add_keys importers_of_setdefault_add)
qed

lemma rel_pkg: "calc_package (objs relative_finder 1) = ''a''"
  by (simp add: relative_finder_def calc_package_def blank_module_def)

lemma rel_name: "dunder_name (objs relative_finder 1) = ''a.module''"
  by (simp add: relative_finder_def blank_module_def)

lemma resolve_dot: "resolve_name (replicate (nat 1) CHR ''.'' @ []) ''a'' = Inr ''a''"
  by (simp add: resolve_name_def startswith_def bootstrap_resolve_name_def)

lemma resolve_deep: "resolve_name (replicate (nat 3) CHR ''.'' @ ''x'') ''a'' = Inl ImportError"
  by (simp add: resolve_name_def startswith_def bootstrap_resolve_name_def numeral_3_eq_3)

lemma try_deep:
  "try_import sys_only_env 1 ''x'' (explicit_names (Some [''y''])) 3 relative_finder
     = (Inl ImportError, ''x'', relative_finder)"
  unfolding try_import_def rel_pkg resolve_deep by simp

text \<open>
  \<open>from ...x import y\<close> in \<open>a.module\<close> is too deep: \<open>resolve_name\<close> raises before
  \<open>name\<close> is rebound, and the failure is recorded under \<open>x\<close>, the target as written.
\<close>

lemma too_deep_keyed_by_raw_target:
  "resolve_name (replicate (nat 3) CHR ''.'' @ ''x'') (calc_package (objs relative_finder 1))
     = Inl ImportError
   \<and> fst (scan_opcode sys_only_env 1 (OpImport ''x'' (Some [''y'']) 3) relative_finder) = None
   \<and> bad_modules (snd (scan_opcode sys_only_env 1 (OpImport ''x'' (Some [''y'']) 3) relative_finder))
       = [(''x'', {''a.module''})]"
proof -
  have c: "ImportError = ImportError \<or> ImportError = SyntaxError" by simp
  have run: "scan_opcode sys_only_env 1 (OpImport ''x'' (Some [''y'']) 3) relative_finder
               = (None, note_bad ''x'' (dunder_name (objs relative_finder 1)) relative_finder)"
    using scan_import_caught [OF try_deep c] by (simp add: have_star_of_def)
  have b: "bad_modules (note_bad ''x'' (dunder_name (objs relative_finder 1)) relative_finder)
             = [(''x'', {''a.module''})]"
    unfolding rel_name note_bad_simps by (simp add: relative_finder_def)
  show ?thesis unfolding run rel_pkg resolve_deep using b by simp
qed

lemma try_unreadable:
  "try_import unreadable_env 1 ''c'' (explicit_names None) 0 relative_finder
     = (Inl EOFError, ''c'', relative_finder)"
  unfolding try_import_def by (simp add: unreadable_env_def)

lemma try_not_found:
  "try_import unreadable_env 1 ''d'' (explicit_names None) 0 relative_finder
     = (Inl ImportError, ''d'', relative_finder)"
  unfolding try_import_def by (simp add: unreadable_env_def sys_only_env_def relative_finder_def)

text \<open>
  C3 at a concrete session. \<open>a.module\<close> has the directives \<open>import c\<close> and \<open>import d\<close>;
  loading \<open>c\<close> fails with \<open>EOFError\<close> and \<open>d\<close> does not exist. The \<open>except\<close> clause
  names \<open>ImportError\<close> and \<open>SyntaxError\<close> only: the failure of \<open>c\<close> is not recorded,
  the exception leaves the loop, and \<open>import d\<close> (whose failure alone would have been
  recorded) is never reached.
\<close>

theorem unreadable_target_aborts_scan:
  "bad_modules relative_finder = []
   \<and> scan_opcode unreadable_env 1 (OpImport ''c'' None 0) relative_finder
       = (Some EOFError, relative_finder)
   \<and> scan_loop unreadable_env 1 [OpImport ''c'' None 0, OpImport ''d'' None 0] relative_finder
       = (Some EOFError, relative_finder)
   \<and> scan_loop unreadable_env 1 [OpImport ''d'' None 0] relative_finder
       = (None, relative_finder\<lparr>bad_modules := [(''d'', {''a.module''})]\<rparr>)"
proof -
  have b: "bad_modules relative_finder = []"
    by (simp add: relative_finder_def)
  have c: "scan_opcode unreadable_env 1 (OpImport ''c'' None 0) relative_finder
             = (Some EOFError, relative_finder)"
    using scan_import_escapes [OF try_unreadable] by simp
  have caught: "ImportError = ImportError \<or> ImportError = SyntaxError" by simp
  have d: "scan_opcode unreadable_env 1 (OpImport ''d'' None 0) relative_finder
             = (None, note_bad ''d'' (dunder_name (objs relative_finder 1)) relative_finder)"
    using scan_import_caught [OF try_not_found caught] by (simp add: have_star_of_def)
  have n: "note_bad ''d'' (dunder_name (objs relative_finder 1)) relative_finder
             = relative_finder\<lparr>bad_modules := [(''d'', {''a.module''})]\<rparr>"
    unfolding rel_name note_bad_def b by simp
  show ?thesis using b c d n by simp
qed

lemma try_broken:
  "try_import broken_submodule_env 1 ''b'' (explicit_names (Some [''module''])) 0 relative_finder
     = (Inl SyntaxError, ''b'',
        relative_finder\<lparr>modules := (modules relative_finder)(''b'' \<mapsto> 100),
          objs := (objs relative_finder)
            (100 := (blank_module ''b'')
               \<lparr>dunder_package := Some ''b'', attrs := {''__path__''},
                dunder_code := Value (Some (Code ''b/__init__.py'' [] [] []))\<rparr>)\<rparr>)"
  unfolding try_import_def by (simp add: broken_submodule_env_def explicit_names_def)

text \<open>
  C8 at a concrete session. \<open>a.module\<close> does \<open>from b import module\<close>; the package
  \<open>b\<close> is found and registered, and its submodule \<open>b/module.py\<close> has a syntax error.
  After the directive, \<open>b\<close> is a registered package that does not expose \<open>module\<close>,
  and the importer is recorded under the key \<open>b\<close>: there is no entry \<open>b.module\<close>.
\<close>

theorem broken_fromlist_item_recorded_under_package:
  "fst (scan_opcode broken_submodule_env 1 (OpImport ''b'' (Some [''module'']) 0) relative_finder)
     = None
   \<and> modules (snd (scan_opcode broken_submodule_env 1 (OpImport ''b'' (Some [''module'']) 0)
                      relative_finder)) ''b'' = Some 100
   \<and> ''__path__'' \<in> attrs (objs (snd (scan_opcode broken_submodule_env 1
                      (OpImport ''b'' (Some [''module'']) 0) relative_finder)) 100)
   \<and> ''module'' \<notin> attrs (objs (snd (scan_opcode broken_submodule_env 1
                      (OpImport ''b'' (Some [''module'']) 0) relative_finder)) 100)
   \<and> bad_modules (snd (scan_opcode broken_submodule_env 1 (OpImport ''b'' (Some [''module'']) 0)
                      relative_finder)) = [(''b'', {''a.module''})]"
proof -
  let ?mf1 = "relative_finder\<lparr>modules := (modules relative_finder)(''b'' \<mapsto> 100),
          objs := (objs relative_finder)
            (100 := (blank_module ''b'')
               \<lparr>dunder_package := Some ''b'', attrs := {''__path__''},
                dunder_code := Value (Some (Code ''b/__init__.py'' [] [] []))\<rparr>)\<rparr>"
  have caught: "SyntaxError = ImportError \<or> SyntaxError = SyntaxError" by simp
  have nm: "dunder_name (objs ?mf1 1) = ''a.module''"
    by (simp add: relative_finder_def blank_module_def)
  have run: "scan_opcode broken_submodule_env 1 (OpImport ''b'' (Some [''module'']) 0) relative_finder
               = (None, note_bad ''b'' (dunder_name (objs ?mf1 1)) ?mf1)"
    using scan_import_caught [OF try_broken caught] by (simp add: have_star_of_def)
  have b: "bad_modules (note_bad ''b'' (dunder_name (objs ?mf1 1)) ?mf1) = [(''b'', {''a.module''})]"
    unfolding nm note_bad_simps by (simp add: relative_finder_def)
  have m: "modules (note_bad ''b'' (dunder_name (objs ?mf1 1)) ?mf1) ''b'' = Some 100"
    unfolding note_bad_simps by simp
  have o: "objs (note_bad ''b'' (dunder_name (objs ?mf1 1)) ?mf1) 100
             = (blank_module ''b'')
                 \<lparr>dunder_package := Some ''b'', attrs := {''__path__''},
                  dunder_code := Value (Some (Code ''b/__init__.py'' [] [] []))\<rparr>"
    unfolding note_bad_simps by simp
  show ?thesis unfolding run using b m o by simp
qed

lemma try_namespace:
  "try_import sys_only_env 0 ''ns'' (explicit_names (Some [''*''])) 0 namespace_finder
     = (Inr 1, ''ns'', namespace_finder)"
  unfolding try_import_def by (simp add: sys_only_env_def namespace_finder_def)

lemma star_import_namespace:
  "star_import 0 ''ns'' namespace_finder = (Some AssertionError, namespace_finder)"
  by (simp add: star_import_def namespace_finder_def plain_module_def)

text \<open>
  C7 at a concrete session. Module \<open>a\<close> does \<open>from ns import *\<close>, where \<open>ns\<close> is a
  namespace package, registered as a plain module: it was not analysed and has no
  code, so its name is to be added to the unresolved star imports of \<open>a\<close>. The
  assertion \<open>isinstance(cached_mod, MFModuleType)\<close> fails instead: the scan of \<open>a\<close>
  ends in \<open>AssertionError\<close>, and the star imports of \<open>a\<close> stay empty.
\<close>

theorem star_from_namespace_package_raises:
  "modules namespace_finder ''ns'' = Some 1
   \<and> \<not> is_mf_module (objs namespace_finder 1)
   \<and> dunder_code (objs namespace_finder 1) = Unset
   \<and> scan_opcode sys_only_env 0 (OpImport ''ns'' (Some [''*'']) 0) namespace_finder
       = (Some AssertionError, namespace_finder)
   \<and> scan_loop sys_only_env 0 [OpImport ''ns'' (Some [''*'']) 0, OpStore ''later''] namespace_finder
       = (Some AssertionError, namespace_finder)
   \<and> mf_star_imports (objs namespace_finder 0) = Value {}"
proof -
  have m: "modules namespace_finder ''ns'' = Some 1"
    by (simp add: namespace_finder_def)
  have t: "\<not> is_mf_module (objs namespace_finder 1)"
    by (simp add: namespace_finder_def plain_module_def)
  have k: "dunder_code (objs namespace_finder 1) = Unset"
    by (simp add: namespace_finder_def plain_module_def)
  have p: "''__path__'' \<in> attrs (objs namespace_finder 1)"
    by (simp add: namespace_finder_def plain_module_def)
  have h: "have_star_of (Some [''*''])"
    by (simp add: have_star_of_def)
  have fl: "explicit_names (Some [''*'']) = []"
    by (simp add: explicit_names_def)
  have run: "scan_opcode sys_only_env 0 (OpImport ''ns'' (Some [''*'']) 0) namespace_finder
               = (Some AssertionError, namespace_finder)"
    using scan_import_ok [OF try_namespace] p h
    by (simp add: Let_def fl star_import_namespace)
  have s: "mf_star_imports (objs namespace_finder 0) = Value {}"
    by (simp add: namespace_finder_def blank_module_def)
  show ?thesis using m t k run s by simp
qed

section \<open>Relative names\<close>

lemma split_on_length: "length (split_on sep s) = Suc (count_char sep s)"
  unfolding count_char_def
  using split_on_nonempty [of sep]
  by (induction s) (auto split: list.splits)

lemma rsplit_on_split:
  "rsplit_on sep k s =
     join_with [sep]
       (take (length (split_on sep s) - min k (length (split_on sep s) - 1)) (split_on sep s))
     # drop (length (split_on sep s) - min k (length (split_on sep s) - 1)) (split_on sep s)"
proof (induction k arbitrary: s)
  case 0
  show ?case by (simp add: join_split_on)
next
  case (Suc k)
  show ?case
  proof (cases "sep \<in> set s")
    case False
    then show ?thesis by (simp add: split_on_no_sep)
  next
    case True
    obtain p t where s: "s = p @ sep # t" and t: "sep \<notin> set t"
      using last_sep_decomp [OF True] by blast
    have rp: "rpartition sep s = (p, [sep], t)"
      unfolding s by (rule rpartition_decomp [OF t])
    define cs where "cs = split_on sep p"
    have sp: "split_on sep s = cs @ [t]"
      using s t by (simp add: cs_def split_on_append_sep split_on_no_sep)
    have ne: "cs \<noteq> []"
      unfolding cs_def by (rule split_on_nonempty)
    define m where "m = length cs - min k (length cs - 1)"
    have m: "length (cs @ [t]) - min (Suc k) (length (cs @ [t]) - 1) = m"
      using ne unfolding m_def by (cases cs) auto
    have le: "m \<le> length cs"
      unfolding m_def by simp
    have ih: "rsplit_on sep k p = join_with [sep] (take m cs) # drop m cs"
      unfolding m_def cs_def by (rule Suc)
    have "rsplit_on sep (Suc k) s = rsplit_on sep k p @ [t]"
      using True rp by simp
    also have "\<dots> = join_with [sep] (take m cs) # drop m cs @ [t]"
      unfolding ih by simp
    also have "\<dots> = join_with [sep] (take m (cs @ [t])) # drop m (cs @ [t])"
      using le by simp
    finally show ?thesis
      unfolding sp m .
  qed
qed

lemma takeWhile_dots:
  assumes "\<not> startswith name ''.''"
  shows "takeWhile (\<lambda>c. c = CHR ''.'') (replicate n CHR ''.'' @ name) = replicate n CHR ''.''"
proof -
  have "takeWhile (\<lambda>c. c = CHR ''.'') name = []"
    using assms by (cases name) (auto simp add: startswith_def)
  then show ?thesis
    by (induction n) simp_all
qed

lemma n_components_nonempty: "a \<noteq> [] \<Longrightarrow> n_components a = length (split_on CHR ''.'' a)"
  by (simp add: n_components_def)

lemma resolve_relative:
  assumes lv: "0 < n" and nm: "\<not> startswith name ''.''"
  shows "resolve_name (replicate n CHR ''.'' @ name) package =
           (if n_components package < n then Inl ImportError
            else Inr (dotted_join (strip_components (n - 1) package) name))"
proof (cases "package = []")
  case True
  have "startswith (replicate n CHR ''.'' @ name) ''.''"
    using lv by (cases n) (auto simp add: startswith_def)
  then show ?thesis
    using True lv by (simp add: resolve_name_def n_components_def)
next
  case False
  define cs where "cs = split_on CHR ''.'' package"
  have ne: "cs \<noteq> []"
    unfolding cs_def by (rule split_on_nonempty)
  have st: "startswith (replicate n CHR ''.'' @ name) ''.''"
    using lv by (cases n) (auto simp add: startswith_def)
  have lvl: "length (takeWhile (\<lambda>c. c = CHR ''.'') (replicate n CHR ''.'' @ name)) = n"
    unfolding takeWhile_dots [OF nm] by simp
  have res: "resolve_name (replicate n CHR ''.'' @ name) package =
               bootstrap_resolve_name name package n"
    unfolding resolve_name_def using st False lvl by (simp add: Let_def)
  define m where "m = length cs - min (n - 1) (length cs - 1)"
  have bits: "rsplit_on CHR ''.'' (n - 1) package = join_with ''.'' (take m cs) # drop m cs"
    unfolding m_def cs_def by (rule rsplit_on_split)
  have len: "length (rsplit_on CHR ''.'' (n - 1) package) < n \<longleftrightarrow> length cs < n"
    unfolding bits m_def using ne lv by (cases cs) auto
  have nc: "n_components package = length cs"
    unfolding cs_def by (rule n_components_nonempty [OF False])
  show ?thesis
  proof (cases "length cs < n")
    case True
    then show ?thesis
      unfolding res bootstrap_resolve_name_def nc using len by (simp add: Let_def)
  next
    case ok: False
    then have mm: "m = length cs - (n - 1)"
      unfolding m_def using lv by auto
    have base: "hd (rsplit_on CHR ''.'' (n - 1) package) = strip_components (n - 1) package"
      unfolding bits strip_components_def mm cs_def by simp
    show ?thesis
      unfolding res bootstrap_resolve_name_def nc using len ok base
      by (simp add: Let_def dotted_join_def)
  qed
qed

lemma calc_package_anchor:
  assumes "package_attrs_ok m"
  shows "calc_package m = anchor_of (dunder_name m) (''__path__'' \<in> attrs m)"
proof -
  have fb: "fst (rpartition CHR ''.'' (dunder_name m)) = dotted_parent (dunder_name m)"
  proof (cases "CHR ''.'' \<in> set (dunder_name m)")
    case True
    then show ?thesis by (simp add: rpartition_dotted)
  next
    case False
    then show ?thesis
      by (simp add: rpartition_def dotted_parent_def split_on_no_sep)
  qed
  show ?thesis
    using assms fb
    by (auto simp add: package_attrs_ok_def calc_package_def anchor_of_def split: option.splits)
qed

lemma wf_name_nonempty: "wf_name n \<Longrightarrow> n \<noteq> []"
  by (auto simp add: wf_name_def)

lemma strip_nothing: "strip_components 0 a = a"
  by (simp add: strip_components_def join_split_on)

lemma determine_parent_package:
  assumes lv: "1 \<le> level" and wf: "wf_name (l_name c)" and reg: "mods (l_name c) = Some c"
    and pk: "l_path_truthy c"
  shows "determine_parent mods (Some c) level =
           (if n_components (l_name c) < nat level then Inl ImportError
            else legacy_lookup mods (strip_components (nat level - 1) (l_name c)))"
proof -
  define cs where "cs = split_on CHR ''.'' (l_name c)"
  have ne: "l_name c \<noteq> []"
    by (rule wf_name_nonempty [OF wf])
  have nc: "n_components (l_name c) = length cs"
    unfolding cs_def by (rule n_components_nonempty [OF ne])
  have cnt: "length cs = Suc (count_char CHR ''.'' (l_name c))"
    unfolding cs_def by (rule split_on_length)
  show ?thesis
  proof (cases "level = 1")
    case True
    have l: "determine_parent mods (Some c) level = Inr (Some c)"
      unfolding determine_parent_def using True pk reg by simp
    have r: "legacy_lookup mods (strip_components (nat level - 1) (l_name c)) = Inr (Some c)"
      using True reg by (simp add: strip_nothing legacy_lookup_def)
    have "\<not> n_components (l_name c) < nat level"
      unfolding nc cnt using True by simp
    then show ?thesis
      unfolding l r by simp
  next
    case False
    then have big: "1 < level"
      using lv by simp
    have l: "determine_parent mods (Some c) level =
               (if int (count_char CHR ''.'' (l_name c)) < level - 1 then Inl ImportError
                else legacy_lookup mods (join_with ''.'' (take (length cs - nat (level - 1)) cs)))"
      unfolding determine_parent_def cs_def using big pk by (simp add: Let_def)
    have c1: "int (count_char CHR ''.'' (l_name c)) < level - 1 \<longleftrightarrow> length cs < nat level"
      unfolding cnt using big by auto
    have c2: "nat (level - 1) = nat level - 1"
      using big by simp
    show ?thesis
      unfolding l c1 c2 nc strip_components_def cs_def by simp
  qed
qed

lemma determine_parent_plain:
  assumes lv: "1 \<le> level" and wf: "wf_name (l_name c)"
    and pk: "\<not> l_path_truthy c"
  shows "determine_parent mods (Some c) level =
           (if n_components (dotted_parent (l_name c)) < nat level then Inl ImportError
            else legacy_lookup mods (strip_components (nat level - 1) (dotted_parent (l_name c))))"
proof -
  have l: "determine_parent mods (Some c) level =
             (if int (count_char CHR ''.'' (l_name c)) < level then Inl ImportError
              else legacy_lookup mods
                     (join_with ''.''
                        (take (length (split_on CHR ''.'' (l_name c)) - nat level)
                           (split_on CHR ''.'' (l_name c)))))"
    unfolding determine_parent_def using lv pk by (simp add: Let_def)
  show ?thesis
  proof (cases "CHR ''.'' \<in> set (l_name c)")
    case False
    have cnt: "count_char CHR ''.'' (l_name c) = 0"
      using False by (auto simp add: count_char_def filter_empty_conv)
    have "dotted_parent (l_name c) = []"
      using False by (simp add: dotted_parent_def split_on_no_sep)
    then have "n_components (dotted_parent (l_name c)) = 0"
      by (simp add: n_components_def)
    then show ?thesis
      unfolding l cnt using lv by simp
  next
    case True
    obtain p t where n: "l_name c = p @ CHR ''.'' # t" and t: "CHR ''.'' \<notin> set t"
      using last_sep_decomp [OF True] by blast
    define cs where "cs = split_on CHR ''.'' p"
    have sp: "split_on CHR ''.'' (l_name c) = cs @ [t]"
      using n t by (simp add: cs_def split_on_append_sep split_on_no_sep)
    have dp: "dotted_parent (l_name c) = p"
      unfolding dotted_parent_def sp cs_def by (simp add: join_split_on)
    have "[] \<notin> set cs"
      using wf unfolding wf_name_def sp by simp
    then have pne: "p \<noteq> []"
      unfolding cs_def by auto
    have nc: "n_components p = length cs"
      unfolding cs_def by (rule n_components_nonempty [OF pne])
    have "length (cs @ [t]) = Suc (count_char CHR ''.'' (l_name c))"
      unfolding sp [symmetric] by (rule split_on_length)
    then have cnt: "count_char CHR ''.'' (l_name c) = length cs"
      by simp
    have c1: "int (length cs) < level \<longleftrightarrow> length cs < nat level"
      using lv by auto
    have tk: "take (length (cs @ [t]) - nat level) (cs @ [t]) = take (length cs - (nat level - 1)) cs"
      using lv by (cases "nat level") auto
    have r: "strip_components (nat level - 1) p = join_with ''.'' (take (length cs - (nat level - 1)) cs)"
      unfolding strip_components_def cs_def by simp
    have "determine_parent mods (Some c) level =
            (if length cs < nat level then Inl ImportError
             else legacy_lookup mods (join_with ''.'' (take (length cs - (nat level - 1)) cs)))"
      unfolding l cnt sp tk c1 by (rule refl)
    then show ?thesis
      unfolding dp nc r .
  qed
qed

lemma determine_parent_relative:
  assumes lv: "1 \<le> level" and wf: "wf_name (l_name c)" and reg: "mods (l_name c) = Some c"
  shows "determine_parent mods (Some c) level =
           (if n_components (anchor_of (l_name c) (l_path_truthy c)) < nat level then Inl ImportError
            else legacy_lookup mods
                   (strip_components (nat level - 1) (anchor_of (l_name c) (l_path_truthy c))))"
proof (cases "l_path_truthy c")
  case True
  have "determine_parent mods (Some c) level =
           (if n_components (l_name c) < nat level then Inl ImportError
            else legacy_lookup mods (strip_components (nat level - 1) (l_name c)))"
    using lv wf reg True by (rule determine_parent_package)
  then show ?thesis
    unfolding anchor_of_def using True by simp
next
  case False
  have "determine_parent mods (Some c) level =
           (if n_components (dotted_parent (l_name c)) < nat level then Inl ImportError
            else legacy_lookup mods (strip_components (nat level - 1) (dotted_parent (l_name c))))"
    using lv wf False by (rule determine_parent_plain)
  then show ?thesis
    unfolding anchor_of_def using False by simp
qed

text \<open>
  C4, as stated, fails for a directive without a target: \<open>from . import x\<close> in
  \<open>a.module\<close> resolves to \<open>a\<close>, the anchor, and not to the anchor joined to the empty
  target with a dot.
\<close>

theorem empty_target_has_no_dot_counterexample:
  "resolve_name (replicate (nat 1) CHR ''.'' @ []) (calc_package (objs relative_finder 1))
     = Inr ''a''
   \<and> strip_components (nat 1 - 1)
        (anchor_of (dunder_name (objs relative_finder 1))
           (''__path__'' \<in> attrs (objs relative_finder 1))) @ ''.'' @ []
     = ''a.''"
proof -
  have a: "anchor_of (dunder_name (objs relative_finder 1))
             (''__path__'' \<in> attrs (objs relative_finder 1)) = ''a''"
    by (simp add: anchor_of_def relative_finder_def blank_module_def dotted_parent_def)
  show ?thesis unfolding a rel_pkg resolve_dot by (simp add: strip_components_def)
qed

text \<open>
  C4, amended. For a directive of level at least 1 whose target does not start with a
  dot, in a module whose \<open>__package__\<close> is its anchor (its own name for a package, the
  name of its parent package otherwise): resolution raises \<open>ImportError\<close> exactly when
  the level exceeds the number of dotted components of the anchor; otherwise the
  absolute name is the anchor without its last \<open>level - 1\<close> components, followed by a
  dot and the target when there is a target, and alone when there is none. The older
  variant, \<open>determine_parent\<close>, raises \<open>ImportError\<close> in the same case and otherwise
  looks up the parent under the same stripped anchor.
\<close>

theorem relative_name_resolution:
  assumes "0 < level" and "\<not> startswith name ''.''"
  shows "(package_attrs_ok m \<longrightarrow>
            resolve_name (replicate (nat level) CHR ''.'' @ name) (calc_package m) =
              (if n_components (anchor_of (dunder_name m) (''__path__'' \<in> attrs m)) < nat level
               then Inl ImportError
               else Inr (dotted_join
                           (strip_components (nat level - 1)
                              (anchor_of (dunder_name m) (''__path__'' \<in> attrs m)))
                           name)))
       \<and> (wf_name (l_name c) \<and> mods (l_name c) = Some c \<longrightarrow>
            determine_parent mods (Some c) level =
              (if n_components (anchor_of (l_name c) (l_path_truthy c)) < nat level
               then Inl ImportError
               else legacy_lookup mods
                      (strip_components (nat level - 1) (anchor_of (l_name c) (l_path_truthy c)))))"
proof (intro conjI impI)
  assume ok: "package_attrs_ok m"
  have lv: "0 < nat level" using assms(1) by simp
  show "resolve_name (replicate (nat level) CHR ''.'' @ name) (calc_package m) =
          (if n_components (anchor_of (dunder_name m) (''__path__'' \<in> attrs m)) < nat level
           then Inl ImportError
           else Inr (dotted_join
                       (strip_components (nat level - 1)
                          (anchor_of (dunder_name m) (''__path__'' \<in> attrs m)))
                       name))"
    unfolding calc_package_anchor [OF ok] by (rule resolve_relative [OF lv assms(2)])
next
  assume h: "wf_name (l_name c) \<and> mods (l_name c) = Some c"
  have lv: "1 \<le> level" using assms(1) by simp
  have wf: "wf_name (l_name c)" using h by simp
  have reg: "mods (l_name c) = Some c" using h by simp
  show "determine_parent mods (Some c) level =
          (if n_components (anchor_of (l_name c) (l_path_truthy c)) < nat level
           then Inl ImportError
           else legacy_lookup mods
                  (strip_components (nat level - 1) (anchor_of (l_name c) (l_path_truthy c))))"
    using lv wf reg by (rule determine_parent_relative)
qed

theorem relative_name_resolution_witness:
  "resolve_name (replicate (nat 1) CHR ''.'' @ ''bar'') (calc_package (objs relative_finder 1))
     = Inr ''a.bar''
   \<and> determine_parent legacy_registry (Some legacy_plain) 1 = Inr (Some legacy_package)"
proof -
  have l: "0 < (1::int)" by simp
  have n: "\<not> startswith ''bar'' ''.''" by (simp add: startswith_def)
  have a1: "anchor_of (dunder_name (objs relative_finder 1))
              (''__path__'' \<in> attrs (objs relative_finder 1)) = ''a''"
    by (simp add: anchor_of_def relative_finder_def blank_module_def dotted_parent_def)
  have ok: "package_attrs_ok (objs relative_finder 1)"
    unfolding package_attrs_ok_def a1 by (simp add: relative_finder_def blank_module_def)
  have a2: "anchor_of (l_name legacy_plain) (l_path_truthy legacy_plain) = ''a''"
    by (simp add: anchor_of_def legacy_plain_def l_path_truthy_def dotted_parent_def)
  have wf: "wf_name (l_name legacy_plain)"
    by (simp add: wf_name_def legacy_plain_def)
  have reg: "legacy_registry (l_name legacy_plain) = Some legacy_plain"
    by (simp add: legacy_registry_def legacy_plain_def)
  have nc: "\<not> n_components ''a'' < nat 1"
    by (simp add: n_components_def)
  have st: "strip_components (nat 1 - 1) ''a'' = ''a''"
    by (simp add: strip_components_def)
  note inst = relative_name_resolution
      [of 1 "''bar''" "objs relative_finder 1" legacy_plain legacy_registry, OF l n]
  have r1: "resolve_name (replicate (nat 1) CHR ''.'' @ ''bar'') (calc_package (objs relative_finder 1))
              = Inr (dotted_join ''a'' ''bar'')"
    using inst ok nc unfolding a1 st by simp
  have r2: "determine_parent legacy_registry (Some legacy_plain) 1
              = legacy_lookup legacy_registry ''a''"
    using inst wf reg nc unfolding a2 st by simp
  have lk: "legacy_lookup legacy_registry ''a'' = Inr (Some legacy_package)"
    by (simp add: legacy_lookup_def legacy_registry_def)
  show ?thesis unfolding r1 r2 lk by (simp add: dotted_join_def)
qed

section \<open>Excluded names and the entry points\<close>

text \<open>A name in \<open>excludes\<close> is in neither list of \<open>any_missing_maybe\<close>.\<close>

lemma excluded_not_listed:
  assumes "n \<in> set (excludes mf)" and "fst (any_missing_maybe mf) = Inr (missing, maybe)"
  shows "n \<notin> set missing \<and> n \<notin> set maybe"
  unfolding returned_lists [OF assms(2)] using assms(1) by (simp add: placed_set)

text \<open>
  C5 at a concrete session: \<open>sys\<close> is excluded and not yet registered, \<open>a.module\<close>
  does \<open>import sys\<close>. The scan hands the name to the import machinery all the same;
  the module is found and registered, and nothing is recorded in \<open>bad_modules\<close>.
  (\<open>excludes\<close> is read by \<open>any_missing_maybe\<close> only.)
\<close>

theorem excluded_name_is_imported:
  "''sys'' \<in> set (excludes (relative_finder\<lparr>excludes := [''sys'']\<rparr>))
   \<and> modules (relative_finder\<lparr>excludes := [''sys'']\<rparr>) ''sys'' = None
   \<and> fst (scan_opcode sys_only_env 1 (OpImport ''sys'' None 0)
             (relative_finder\<lparr>excludes := [''sys'']\<rparr>)) = None
   \<and> modules (snd (scan_opcode sys_only_env 1 (OpImport ''sys'' None 0)
             (relative_finder\<lparr>excludes := [''sys'']\<rparr>))) ''sys'' = Some 100
   \<and> bad_modules (snd (scan_opcode sys_only_env 1 (OpImport ''sys'' None 0)
             (relative_finder\<lparr>excludes := [''sys'']\<rparr>))) = []"
proof -
  let ?mf = "relative_finder\<lparr>excludes := [''sys'']\<rparr>"
  let ?mf1 = "?mf\<lparr>modules := (modules ?mf)(''sys'' \<mapsto> 100),
                    objs := (objs ?mf)(100 := blank_module ''sys'')\<rparr>"
  have t: "try_import sys_only_env 1 ''sys'' (explicit_names None) 0 ?mf = (Inr 100, ''sys'', ?mf1)"
    unfolding try_import_def by (simp add: sys_only_env_def relative_finder_def)
  have np: "''__path__'' \<notin> attrs (objs ?mf1 100)"
    by (simp add: blank_module_def)
  have run: "scan_opcode sys_only_env 1 (OpImport ''sys'' None 0) ?mf = (None, ?mf1)"
    using scan_import_ok [OF t] np by (simp add: have_star_of_def Let_def)
  have a: "''sys'' \<in> set (excludes ?mf)" by simp
  have b: "modules ?mf ''sys'' = None" by (simp add: relative_finder_def)
  have c: "modules ?mf1 ''sys'' = Some 100" by simp
  have d: "bad_modules ?mf1 = []" by (simp add: relative_finder_def)
  show ?thesis unfolding run using a b c d by simp
qed

text \<open>
  \<open>_import_from_file\<close> reads \<open>module.__code__\<close> in an assertion placed before
  \<open>exec_module\<close>, the only place where the attribute is assigned: whenever a spec with
  a loader is found, the call ends in \<open>AttributeError\<close> and the finder is as before.
\<close>

lemma import_from_file_fails:
  assumes "spec_from_file_location e name pathname = Some spec" and "spec_has_loader spec"
  shows "import_from_file e name pathname mf = (Some AttributeError, mf)"
  using assms by (simp add: import_from_file_def create_module_def)

text \<open>
  C6 at a concrete session: running a script on a fresh finder raises before the
  module is put into \<open>modules\<close>; the registry stays empty and nothing is scanned.
\<close>

theorem run_as_script_registers_nothing:
  "run_as_script sys_only_env ''a.py'' (new_finder [] [] [] (\<lambda>a. blank_module []))
     = (Some AttributeError, new_finder [] [] [] (\<lambda>a. blank_module []))
   \<and> modules (snd (run_as_script sys_only_env ''a.py'' (new_finder [] [] [] (\<lambda>a. blank_module []))))
       = Map.empty"
proof -
  have s: "spec_from_file_location sys_only_env ''__main__'' ''a.py''
             = Some \<lparr>spec_name = ''__main__'', spec_has_loader = True\<rparr>"
    by (simp add: sys_only_env_def)
  have run: "run_as_script sys_only_env ''a.py'' (new_finder [] [] [] (\<lambda>a. blank_module []))
               = (Some AttributeError, new_finder [] [] [] (\<lambda>a. blank_module []))"
    unfolding run_as_script_def by (rule import_from_file_fails [OF s]) simp
  show ?thesis unfolding run by (simp add: new_finder_def)
qed

end
